theory Spec2Isabelle
  imports Complex_Main "HOL-Library.AList"
begin

section \<open>Strings\<close>

text \<open>
  A Python \<open>str\<close> is a sequence of Unicode code points and is modelled as the list of
  their numbers; \<open>len\<close> is the length of the list. \<open>py\<close> writes a literal of
  \<open>app.py\<close> whose characters are ASCII, each character standing for its code point; the
  emoji of the fixed labels are given by their code points.
\<close>

type_synonym str = "nat list"

definition py :: "string \<Rightarrow> str" where
  "py cs = map of_char cs"

text \<open>
  Three questions the program asks about characters are answered by the Unicode database of
  the interpreter. White space, which \<open>str.strip()\<close> removes from the two ends, is a
  list of 29 code points and is written out. Whether a character is alphanumeric
  (\<open>str.isalnum\<close>, from which \<open>re\<close> builds \<open>\w\<close> for a \<open>str\<close> pattern) and the
  lower-casing of a string (\<open>str.lower\<close>, which is not done character by character: one
  character can become two, and a capital sigma depends on its place in the word) are tables
  with thousands of entries. These two are a parameter \<open>U\<close> of the model, and every
  theorem is proved for every database \<open>U\<close>.
\<close>

record unicode_db =
  isalnum :: "nat \<Rightarrow> bool"
  str_lower :: "str \<Rightarrow> str"

definition whitespace :: "nat list" where
  \<comment> \<open>the code points \<open>c\<close> with \<open>chr(c).isspace()\<close>: tab, LF, VT, FF, CR, FS, GS, RS, US,
      space, NEL, the no-break space, the Ogham space mark, U+2000 to U+200A, the line and
      paragraph separators, the narrow no-break space, the medium mathematical space and the
      ideographic space\<close>
  "whitespace = [0x9, 0xA, 0xB, 0xC, 0xD, 0x1C, 0x1D, 0x1E, 0x1F, 0x20, 0x85, 0xA0, 0x1680,
     0x2000, 0x2001, 0x2002, 0x2003, 0x2004, 0x2005, 0x2006, 0x2007, 0x2008, 0x2009, 0x200A,
     0x2028, 0x2029, 0x202F, 0x205F, 0x3000]"

definition isspace :: "nat \<Rightarrow> bool" where
  "isspace c = (c \<in> set whitespace)"

definition strip :: "str \<Rightarrow> str" where
  "strip s = rev (dropWhile isspace (rev (dropWhile isspace s)))"

definition lower :: "unicode_db \<Rightarrow> str \<Rightarrow> str" where
  \<comment> \<open>\<open>s.lower()\<close>\<close>
  "lower U s = str_lower U s"

definition word_char :: "unicode_db \<Rightarrow> nat \<Rightarrow> bool" where
  \<comment> \<open>the class \<open>\w\<close> of a \<open>str\<close> pattern: an alphanumeric character or the underscore\<close>
  "word_char U c = (isalnum U c \<or> c = 0x5F)"

primrec str_in :: "str \<Rightarrow> str \<Rightarrow> bool" where
  \<comment> \<open>\<open>sub in s\<close>: \<open>sub\<close> occurs in \<open>s\<close> as a contiguous piece\<close>
  "str_in sub [] = (sub = [])"
| "str_in sub (c # cs) = (take (length sub) (c # cs) = sub \<or> str_in sub cs)"

primrec join :: "str \<Rightarrow> str list \<Rightarrow> str" where
  \<comment> \<open>\<open>sep.join(xs)\<close>\<close>
  "join sep [] = []"
| "join sep (x # xs) = (if xs = [] then x else x @ sep @ join sep xs)"

text \<open>
  The examples are evaluated with a database that answers as Unicode does for the code
  points below 256 (ASCII and the Latin-1 supplement), where lower-casing is done character
  by character; their texts stay in this range.
\<close>

definition latin1_isalnum :: "nat \<Rightarrow> bool" where
  "latin1_isalnum c =
     ((48 \<le> c \<and> c \<le> 57) \<or> (65 \<le> c \<and> c \<le> 90) \<or> (97 \<le> c \<and> c \<le> 122) \<or> c = 170 \<or>
      (178 \<le> c \<and> c \<le> 179) \<or> c = 181 \<or> (185 \<le> c \<and> c \<le> 186) \<or> (188 \<le> c \<and> c \<le> 190) \<or>
      (192 \<le> c \<and> c \<le> 214) \<or> (216 \<le> c \<and> c \<le> 246) \<or> (248 \<le> c \<and> c \<le> 255))"

definition latin1_lower :: "nat \<Rightarrow> nat" where
  "latin1_lower c =
     (if (65 \<le> c \<and> c \<le> 90) \<or> (192 \<le> c \<and> c \<le> 214) \<or> (216 \<le> c \<and> c \<le> 222)
      then c + 32 else c)"

definition latin1_db :: unicode_db where
  "latin1_db = \<lparr>isalnum = latin1_isalnum, str_lower = map latin1_lower\<rparr>"

subsection \<open>The regular expression of the keyword extractor\<close>

text \<open>
  \<open>re.findall(r'\b\w+\b', s)\<close> scans \<open>s\<close> from the left. At a position it tries
  \<open>\b\<close> (the characters on the two sides are of different classes, the outside of the
  text counting as a non-word character), then \<open>\w+\<close> greedily, giving characters back
  one at a time until the closing \<open>\b\<close> holds. After a match the scan goes on where
  the match ended, after a failure one character further. The scan carries the character
  before the position, \<open>None\<close> at the start of the text.
\<close>

definition is_word :: "('c \<Rightarrow> bool) \<Rightarrow> 'c option \<Rightarrow> bool" where
  "is_word isw x = (case x of None \<Rightarrow> False | Some c \<Rightarrow> isw c)"

definition word_boundary :: "('c \<Rightarrow> bool) \<Rightarrow> 'c option \<Rightarrow> 'c option \<Rightarrow> bool" where
  "word_boundary isw before after = (is_word isw before \<noteq> is_word isw after)"

definition char_at :: "'c list \<Rightarrow> nat \<Rightarrow> 'c option" where
  "char_at s i = (if i < length s then Some (s ! i) else None)"

definition match_word :: "('c \<Rightarrow> bool) \<Rightarrow> 'c list \<Rightarrow> nat option" where
  \<comment> \<open>\<open>\w+\b\<close> at the head of \<open>s\<close>: the length matched, the longest candidate first\<close>
  "match_word isw s =
     find (\<lambda>k. word_boundary isw (char_at s (k - 1)) (char_at s k))
       (rev [1 ..< Suc (length (takeWhile isw s))])"

function findall_words :: "('c \<Rightarrow> bool) \<Rightarrow> 'c option \<Rightarrow> 'c list \<Rightarrow> 'c list list" where
  "findall_words isw before [] = []"
| "findall_words isw before (c # cs) =
     (if word_boundary isw before (Some c) then
        (case match_word isw (c # cs) of
           Some k \<Rightarrow>
             take k (c # cs) # findall_words isw (char_at (c # cs) (k - 1)) (drop k (c # cs))
         | None \<Rightarrow> findall_words isw (Some c) cs)
      else findall_words isw (Some c) cs)"
  by pat_completeness auto
termination
proof (relation "measure (\<lambda>(isw, before, s). length s)")
  fix isw :: "'c \<Rightarrow> bool" and before :: "'c option" and c :: 'c and cs :: "'c list" and k :: nat
  assume "match_word isw (c # cs) = Some k"
  then have "k \<in> set (rev [1 ..< Suc (length (takeWhile isw (c # cs)))])"
    unfolding match_word_def find_Some_iff by (metis nth_mem)
  then have "1 \<le> k"
    by (auto simp del: takeWhile.simps)
  then show "((isw, char_at (c # cs) (k - 1), drop k (c # cs)), (isw, before, c # cs))
      \<in> measure (\<lambda>(isw, before, s). length s)"
    by simp
qed auto

definition stop_words :: "str list" where
  "stop_words = [py ''have'', py ''that'', py ''with'', py ''this'']"

definition extract_keywords :: "unicode_db \<Rightarrow> str \<Rightarrow> str list" where
  \<comment> \<open>lines 104-105 of \<open>add_note\<close>\<close>
  "extract_keywords U note =
     [lower U word. word \<leftarrow> findall_words (word_char U) None note,
        length word > 3 \<and> lower U word \<notin> set stop_words]"

subsection \<open>The keyword extractor as the specification words it\<close>

function maximal_runs :: "('c \<Rightarrow> bool) \<Rightarrow> 'c list \<Rightarrow> 'c list list" where
  "maximal_runs isw [] = []"
| "maximal_runs isw (c # cs) =
     (if isw c then (c # takeWhile isw cs) # maximal_runs isw (dropWhile isw cs)
      else maximal_runs isw cs)"
  by pat_completeness auto
termination
  by (relation "measure (\<lambda>(isw, s). length s)")
     (auto simp: less_Suc_eq_le length_dropWhile_le)

definition spec_keywords :: "unicode_db \<Rightarrow> str \<Rightarrow> str list" where
  "spec_keywords U note =
     map (lower U) (filter (\<lambda>w. lower U w \<notin> set stop_words)
       (filter (\<lambda>w. 3 < length w) (maximal_runs (word_char U) note)))"

section \<open>Reference data\<close>

definition SUBJECTS :: "str list" where
  "SUBJECTS = [py ''Mathematics'', py ''Physics'', py ''Chemistry'', py ''Biology'', py ''History'',
     py ''Literature'', py ''Computer Science'', py ''Economics'', py ''Languages'', py ''Other'']"

definition NOTE_CATEGORIES :: "str list" where
  "NOTE_CATEGORIES = [py ''Lecture Notes'', py ''Study Tips'', py ''Research Ideas'', py ''Questions'',
     py ''Homework'', py ''Project Ideas'', py ''Other'']"

definition focus_tips :: "str list" where
  "focus_tips = [py ''Find a quiet study space'',
     py ''Use the Pomodoro Technique (25 min study, 5 min break)'',
     py ''Put your phone on silent mode'',
     py ''Take regular short breaks'']"

definition memory_tips :: "str list" where
  "memory_tips = [py ''Create mind maps for complex topics'',
     py ''Teach the concept to someone else'',
     py ''Use spaced repetition technique'',
     py ''Write summary notes after each study session'']"

definition motivation_tips :: "str list" where
  "motivation_tips = [py ''Set specific, achievable goals'',
     py ''Reward yourself after completing tasks'',
     py ''Study with a friend or study group'',
     py ''Track your progress regularly'']"

definition STUDY_TIPS :: "(str \<times> str list) list" where
  \<comment> \<open>the dictionary, in the order of its keys\<close>
  "STUDY_TIPS = [(py ''focus'', focus_tips), (py ''memory'', memory_tips),
     (py ''motivation'', motivation_tips)]"

definition TASK_STATUSES :: "str list" where
  \<comment> \<open>the list literal of line 235\<close>
  "TASK_STATUSES = [py ''pending'', py ''in-progress'', py ''completed'']"

definition check_mark :: str where
  \<comment> \<open>the character U+2705 that ends the three status lines\<close>
  "check_mark = [0x2705]"

definition happy_label :: str where
  \<comment> \<open>U+1F60A and " Happy"\<close>
  "happy_label = [0x1F60A] @ py '' Happy''"

definition sad_label :: str where
  \<comment> \<open>U+1F61E and " Sad"\<close>
  "sad_label = [0x1F61E] @ py '' Sad''"

definition neutral_label :: str where
  \<comment> \<open>U+1F610 and " Neutral"\<close>
  "neutral_label = [0x1F610] @ py '' Neutral''"

section \<open>Numbers\<close>

text \<open>
  \<open>str(n)\<close> of a natural number: its decimal digits, the most significant first.
\<close>

definition digit_char :: "nat \<Rightarrow> nat" where
  \<comment> \<open>the code point of the digit \<open>d\<close>\<close>
  "digit_char d = 48 + d"

function str_nat :: "nat \<Rightarrow> str" where
  "str_nat n = (if n < 10 then [digit_char n] else str_nat (n div 10) @ [digit_char (n mod 10)])"
  by pat_completeness auto
termination
  by (relation "measure (\<lambda>n. n)") auto

definition nat_of_str :: "str \<Rightarrow> nat" where
  \<comment> \<open>reads a decimal string back\<close>
  "nat_of_str ds = foldl (\<lambda>a c. 10 * a + (c - 48)) 0 ds"

text \<open>
  The sentiment scores are Python floats that the program only compares with the literals
  \<open>0.2\<close>, \<open>-0.2\<close> and \<open>0.5\<close>. A float is modelled by the real number it
  denotes, and comparison of floats is comparison of these numbers. The literal \<open>0.2\<close>
  denotes the binary64 number nearest to one fifth, which is \<open>lit_0_2\<close>; \<open>0.5\<close> is
  exact.
\<close>

definition lit_0_2 :: real where
  "lit_0_2 = 3602879701896397 / 2 ^ 54"

definition lit_0_5 :: real where
  "lit_0_5 = 1 / 2"

text \<open>
  The completion rate is computed in binary64 arithmetic. A non-negative finite binary64
  number is modelled by a mantissa and an exponent, \<open>Float64 m e\<close> standing for
  \<open>m * 2 ^ e\<close>; every operation rounds its exact result to the nearest number with a
  53-bit mantissa, ties to the even mantissa, exponents ending at \<open>-1074\<close>.
\<close>

datatype float64 = Float64 nat int

definition float_val :: "float64 \<Rightarrow> real" where
  "float_val x = (case x of Float64 m e \<Rightarrow> real m * 2 powr (real_of_int e))"

fun bit_length :: "nat \<Rightarrow> nat" where
  "bit_length n = (if n = 0 then 0 else Suc (bit_length (n div 2)))"

definition shifted :: "nat \<Rightarrow> nat \<Rightarrow> int \<Rightarrow> nat \<times> nat" where
  \<comment> \<open>the fraction \<open>n / d * 2 ^ k\<close>\<close>
  "shifted n d k = (if 0 \<le> k then (n * 2 ^ nat k, d) else (n, d * 2 ^ nat (- k)))"

definition nearest_even :: "nat \<Rightarrow> nat \<Rightarrow> nat" where
  \<comment> \<open>the integer nearest to \<open>a / b\<close>, the even one of two\<close>
  "nearest_even a b =
     (let q = a div b; r = a mod b
      in if b < 2 * r \<or> (2 * r = b \<and> odd q) then q + 1 else q)"

definition round_ratio :: "nat \<Rightarrow> nat \<Rightarrow> float64" where
  \<comment> \<open>the binary64 number nearest to \<open>n / d\<close>\<close>
  "round_ratio n d =
     (if n = 0 then Float64 0 0
      else
        let k0 = 53 + int (bit_length d) - int (bit_length n);
            k1 = (case shifted n d k0 of (a, b) \<Rightarrow> if b * 2 ^ 53 \<le> a then k0 - 1 else k0);
            k = min k1 1074
        in case shifted n d k of (a, b) \<Rightarrow> Float64 (nearest_even a b) (- k))"

definition int_truediv :: "nat \<Rightarrow> nat \<Rightarrow> float64" where
  \<comment> \<open>\<open>a / b\<close> of two integers\<close>
  "int_truediv a b = round_ratio a b"

definition float_of_nat :: "nat \<Rightarrow> float64" where
  "float_of_nat n = round_ratio n 1"

definition float_mul :: "float64 \<Rightarrow> float64 \<Rightarrow> float64" where
  "float_mul x y =
     (case (x, y) of (Float64 m1 e1, Float64 m2 e2) \<Rightarrow>
        (case shifted (m1 * m2) 1 (e1 + e2) of (a, b) \<Rightarrow> round_ratio a b))"

definition float_round2 :: "float64 \<Rightarrow> float64" where
  \<comment> \<open>\<open>round(x, 2)\<close>: the exact value to the nearest hundredth, then to binary64\<close>
  "float_round2 x =
     (case x of Float64 m e \<Rightarrow>
        (case shifted (m * 100) 1 e of (a, b) \<Rightarrow> round_ratio (nearest_even a b) 100))"

datatype pynum = PyInt int | PyFloat float64

section \<open>Request models, stored records and the four stores\<close>

text \<open>
  The request models are the pydantic classes of \<open>app.py\<close>, after the framework has
  parsed the request and filled in the defaults (\<open>priority = 1\<close>, \<open>status = "pending"\<close>,
  \<open>completed_goals = []\<close>). A stored record is the dictionary the handler builds: the
  fields of the request model and the ones the handler adds. Field names that Isabelle
  reserves, or that two models share, carry a prefix.
\<close>

record Note =
  note_text :: str
  category :: str
  priority :: "int option"

record reminder = Note +
  note_keywords :: "str list"
  timestamp :: str

record MoodText =
  mood_text :: str

record mood_entry = MoodText +
  mood :: str
  tip :: str
  mood_timestamp :: str

record Task =
  title :: str
  description :: str
  due_date :: str
  subject :: str
  task_priority :: int
  status :: str

record task_entry = Task +
  task_id :: str
  task_timestamp :: str

record StudySession =
  session_subject :: str
  duration :: int
  goals :: "str list"
  completed_goals :: "str list"

record session_entry = StudySession +
  session_timestamp :: str

record TaskUpdate =
  new_status :: str

definition Task_default_status :: str where
  \<comment> \<open>the default of the field \<open>status\<close> of \<open>Task\<close>\<close>
  "Task_default_status = py ''pending''"

record store =
  reminders :: "reminder list"
  moods :: "mood_entry list"
  tasks :: "task_entry list"
  study_sessions :: "session_entry list"

definition initial_store :: store where
  "initial_store = \<lparr>reminders = [], moods = [], tasks = [], study_sessions = []\<rparr>"

record mood_tracking =
  positive :: nat
  neutral :: nat
  negative :: nat

record study_stats =
  total_study_time_minutes :: int
  subjects_breakdown :: "(str \<times> int) list"
  task_completion_rate :: pynum
  total_notes :: nat
  mood_counts :: mood_tracking

datatype http_error = HTTPException (status_code: nat) (detail: str)

text \<open>
  The response bodies, one constructor per handler, the arguments in the order of the keys
  of the dictionary returned. In \<open>add_task\<close> the dictionary is
  \<open>{"status": "Task added", **task_entry}\<close>: the key \<open>status\<close> of \<open>task_entry\<close>
  comes later and replaces the first, so the body is the stored record.
\<close>

datatype response =
    NoteAdded str "str list" str str "int option"
  | MoodChecked str str str
  | TaskAdded task_entry
  | SessionRecorded str str StudySession
  | StudyStats study_stats
  | StudyTips str "str list"
  | TaskUpdated str task_entry
  | AllData "reminder list" "mood_entry list" "task_entry list" "session_entry list"
      "str list" "str list"

type_synonym outcome = "store \<times> (http_error + response)"

section \<open>The handlers\<close>

text \<open>
  A handler takes the stores and its request and returns the stores after the call together
  with the error raised or the body returned. What the handler reads from outside the
  program is an argument: the clock (\<open>now\<close>, the ISO timestamp), the two sentiment scores
  of the text, the state of the random generator, and the Unicode database \<open>U\<close> in the
  two handlers that classify or lower-case characters.
\<close>

definition add_note :: "unicode_db \<Rightarrow> store \<Rightarrow> Note \<Rightarrow> str \<Rightarrow> outcome" where
  "add_note U s note_data now =
     (if strip (note_text note_data) = [] then
        (s, Inl (HTTPException 400 (py ''Note cannot be empty'')))
      else if category note_data \<notin> set NOTE_CATEGORIES then
        (s, Inl (HTTPException 400
           (py ''Invalid category. Choose from: '' @ join (py '', '') NOTE_CATEGORIES)))
      else
        let kws = extract_keywords U (note_text note_data);
            r = \<lparr>note_text = note_text note_data, category = category note_data,
                 priority = priority note_data, note_keywords = kws, timestamp = now\<rparr>
        in (s\<lparr>reminders := reminders s @ [r]\<rparr>,
            Inr (NoteAdded (py ''Note added '' @ check_mark) kws (note_text note_data)
                   (category note_data) (priority note_data))))"

definition classify_mood :: "unicode_db \<Rightarrow> real \<Rightarrow> real \<Rightarrow> str \<Rightarrow> str \<times> str" where
  \<comment> \<open>lines 134-148: the mood label and the tip\<close>
  "classify_mood U polarity subjectivity msg =
     (if polarity > lit_0_2 then
        (happy_label,
         if subjectivity > lit_0_5 then (py ''Great mood! '') @ focus_tips ! 0
         else (py ''Excellent! '') @ motivation_tips ! 2)
      else if polarity < - lit_0_2 then
        (sad_label,
         if str_in (py ''tired'') (lower U msg) \<or> str_in (py ''exhausted'') (lower U msg)
         then (py ''Take a refreshing break! '') @ focus_tips ! 3
         else (py ''It's okay to feel down. '') @ motivation_tips ! 1)
      else
        (neutral_label, py ''Stay focused! '' @ memory_tips ! 0))"

definition mood_check :: "unicode_db \<Rightarrow> store \<Rightarrow> MoodText \<Rightarrow> real \<Rightarrow> real \<Rightarrow> str \<Rightarrow> outcome" where
  "mood_check U s mood_data polarity subjectivity now =
     (if strip (mood_text mood_data) = [] then
        (s, Inl (HTTPException 400 (py ''Text cannot be empty'')))
      else
        case classify_mood U polarity subjectivity (mood_text mood_data) of (m, t) \<Rightarrow>
          (s\<lparr>moods := moods s @
               [\<lparr>mood_text = mood_text mood_data, mood = m, tip = t, mood_timestamp = now\<rparr>]\<rparr>,
           Inr (MoodChecked m t (mood_text mood_data))))"

definition add_task :: "store \<Rightarrow> Task \<Rightarrow> str \<Rightarrow> outcome" where
  "add_task s task now =
     (if subject task \<notin> set SUBJECTS then
        (s, Inl (HTTPException 400
           (py ''Invalid subject. Choose from: '' @ join (py '', '') SUBJECTS)))
      else
        let e = \<lparr>title = title task, description = description task,
                 due_date = due_date task, subject = subject task,
                 task_priority = task_priority task, status = status task,
                 task_id = str_nat (length (tasks s) + 1), task_timestamp = now\<rparr>
        in (s\<lparr>tasks := tasks s @ [e]\<rparr>, Inr (TaskAdded e)))"

definition randint :: "nat \<Rightarrow> nat \<Rightarrow> nat \<Rightarrow> nat" where
  \<comment> \<open>\<open>random.randint(a, b)\<close>: some number from \<open>a\<close> to \<open>b\<close>, both included, picked by
      the state of the generator\<close>
  "randint a b generator = a + generator mod (b - a + 1)"

definition session_tip :: "int \<Rightarrow> nat \<Rightarrow> str" where
  \<comment> \<open>lines 189-192\<close>
  "session_tip d generator =
     (if d > 120 then focus_tips ! 1
      else memory_tips ! randint 0 (length memory_tips - 1) generator)"

definition record_study_session :: "store \<Rightarrow> StudySession \<Rightarrow> str \<Rightarrow> nat \<Rightarrow> outcome" where
  "record_study_session s session now generator =
     (if session_subject session \<notin> set SUBJECTS then
        (s, Inl (HTTPException 400
           (py ''Invalid subject. Choose from: '' @ join (py '', '') SUBJECTS)))
      else if duration session < 5 \<or> duration session > 480 then
        (s, Inl (HTTPException 400 (py ''Duration must be between 5 and 480 minutes'')))
      else
        let e = \<lparr>session_subject = session_subject session, duration = duration session,
                 goals = goals session, completed_goals = completed_goals session,
                 session_timestamp = now\<rparr>;
            s' = s\<lparr>study_sessions := study_sessions s @ [e]\<rparr>;
            t = session_tip (duration session) generator
        in (s', Inr (SessionRecorded (py ''Study session recorded '' @ check_mark) t session)))"

definition dict_get :: "(str \<times> int) list \<Rightarrow> str \<Rightarrow> int \<Rightarrow> int" where
  \<comment> \<open>\<open>d.get(k, default)\<close>\<close>
  "dict_get d k dflt = (case map_of d k of None \<Rightarrow> dflt | Some v \<Rightarrow> v)"

definition subjects_studied :: "session_entry list \<Rightarrow> (str \<times> int) list" where
  \<comment> \<open>the loop of lines 204-206; the dictionary keeps its keys in the order of insertion\<close>
  "subjects_studied sessions =
     foldl (\<lambda>d session.
         AList.update (session_subject session)
           (dict_get d (session_subject session) 0 + duration session) d)
       [] sessions"

definition completion_rate :: "nat \<Rightarrow> nat \<Rightarrow> pynum" where
  \<comment> \<open>lines 211 and 216: \<open>round\<close> of the integer 0 is the integer 0\<close>
  "completion_rate tasks_completed total_tasks =
     (if total_tasks > 0
      then PyFloat (float_round2
             (float_mul (int_truediv tasks_completed total_tasks) (float_of_nat 100)))
      else PyInt 0)"

definition get_study_stats :: "store \<Rightarrow> outcome" where
  "get_study_stats s =
     (let total_study_time = sum_list (map duration (study_sessions s));
          tasks_completed = length (filter (\<lambda>t. status t = py ''completed'') (tasks s));
          total_tasks = length (tasks s)
      in (s, Inr (StudyStats
           \<lparr>total_study_time_minutes = total_study_time,
            subjects_breakdown = subjects_studied (study_sessions s),
            task_completion_rate = completion_rate tasks_completed total_tasks,
            total_notes = length (reminders s),
            mood_counts =
              \<lparr>positive = length (filter (\<lambda>m. str_in (py ''Happy'') (mood m)) (moods s)),
               neutral = length (filter (\<lambda>m. str_in (py ''Neutral'') (mood m)) (moods s)),
               negative = length (filter (\<lambda>m. str_in (py ''Sad'') (mood m)) (moods s))\<rparr>\<rparr>)))"

definition get_study_tips :: "store \<Rightarrow> str \<Rightarrow> outcome" where
  "get_study_tips s cat =
     (case map_of STUDY_TIPS cat of
        None \<Rightarrow>
          (s, Inl (HTTPException 400
             (py ''Invalid category. Choose from: '' @ join (py '', '') (map fst STUDY_TIPS))))
      | Some tips \<Rightarrow> (s, Inr (StudyTips cat tips)))"

fun update_first :: "task_entry list \<Rightarrow> str \<Rightarrow> str \<Rightarrow> (task_entry list \<times> task_entry) option" where
  \<comment> \<open>the loop of lines 238-241: the list after the assignment and the task returned, or
      \<open>None\<close> when the loop ends without a match\<close>
  "update_first [] tid st = None"
| "update_first (t # ts) tid st =
     (if task_id t = tid then Some (t\<lparr>status := st\<rparr> # ts, t\<lparr>status := st\<rparr>)
      else (case update_first ts tid st of
              None \<Rightarrow> None
            | Some (ts', u) \<Rightarrow> Some (t # ts', u)))"

definition update_task_status :: "store \<Rightarrow> str \<Rightarrow> TaskUpdate \<Rightarrow> outcome" where
  "update_task_status s tid task_update =
     (if new_status task_update \<notin> set TASK_STATUSES then
        (s, Inl (HTTPException 400 (py ''Invalid status'')))
      else
        (case update_first (tasks s) tid (new_status task_update) of
           Some (ts', u) \<Rightarrow> (s\<lparr>tasks := ts'\<rparr>, Inr (TaskUpdated (py ''Task status updated'') u))
         | None \<Rightarrow> (s, Inl (HTTPException 404 (py ''Task not found'')))))"

definition all_data :: "store \<Rightarrow> outcome" where
  "all_data s =
     (s, Inr (AllData (reminders s) (moods s) (tasks s) (study_sessions s)
                SUBJECTS NOTE_CATEGORIES))"

subsection \<open>Sequences of requests\<close>

datatype request =
    AddNote Note str
  | MoodCheck MoodText real real str
  | AddTask Task str
  | RecordStudySession StudySession str nat
  | GetStudyStats
  | GetStudyTips str
  | UpdateTaskStatus str TaskUpdate
  | GetAllData

fun handle :: "unicode_db \<Rightarrow> store \<Rightarrow> request \<Rightarrow> outcome" where
  "handle U s (AddNote note_data now) = add_note U s note_data now"
| "handle U s (MoodCheck mood_data polarity subjectivity now) =
     mood_check U s mood_data polarity subjectivity now"
| "handle U s (AddTask task now) = add_task s task now"
| "handle U s (RecordStudySession session now generator) =
     record_study_session s session now generator"
| "handle U s GetStudyStats = get_study_stats s"
| "handle U s (GetStudyTips cat) = get_study_tips s cat"
| "handle U s (UpdateTaskStatus tid task_update) = update_task_status s tid task_update"
| "handle U s GetAllData = all_data s"

fun run :: "unicode_db \<Rightarrow> store \<Rightarrow> request list \<Rightarrow> store" where
  \<comment> \<open>the stores after the requests, served one after the other\<close>
  "run U s [] = s"
| "run U s (r # rs) = run U (fst (handle U s r)) rs"

definition new_id :: "unicode_db \<Rightarrow> store \<Rightarrow> request \<Rightarrow> str list" where
  \<comment> \<open>the id in the body of the request, when the body is that of \<open>add_task\<close>\<close>
  "new_id U s r = (case snd (handle U s r) of Inr (TaskAdded e) \<Rightarrow> [task_id e] | _ \<Rightarrow> [])"

fun added_ids :: "unicode_db \<Rightarrow> store \<Rightarrow> request list \<Rightarrow> str list" where
  \<comment> \<open>the ids handed out while the requests are served, in the order of the calls\<close>
  "added_ids U s [] = []"
| "added_ids U s (r # rs) = new_id U s r @ added_ids U (fst (handle U s r)) rs"

fun valid_add_task :: "request \<Rightarrow> bool" where
  \<comment> \<open>a call of \<open>add_task\<close> with valid data: the subject passes the check of line 162\<close>
  "valid_add_task (AddTask task now) = (subject task \<in> set SUBJECTS)"
| "valid_add_task r = False"

subsection \<open>The records a sequence of add operations is expected to leave\<close>

text \<open>
  The four add operations are \<open>add_note\<close>, \<open>mood_check\<close>, \<open>add_task\<close> and
  \<open>record_study_session\<close>. \<open>all_succeed\<close> says that every request of a sequence is one
  of them and returns a body, each served on the stores the earlier ones have left.
  \<open>records\<close> lists, in the order of the requests, the record each one is expected to add
  to its store; the number of tasks stored so far is carried along, for the id.
\<close>

fun is_add :: "request \<Rightarrow> bool" where
  "is_add (AddNote note_data now) = True"
| "is_add (MoodCheck mood_data polarity subjectivity now) = True"
| "is_add (AddTask task now) = True"
| "is_add (RecordStudySession session now generator) = True"
| "is_add r = False"

definition succeeds :: "unicode_db \<Rightarrow> store \<Rightarrow> request \<Rightarrow> bool" where
  "succeeds U s r = (case snd (handle U s r) of Inl e \<Rightarrow> False | Inr body \<Rightarrow> True)"

fun all_succeed :: "unicode_db \<Rightarrow> store \<Rightarrow> request list \<Rightarrow> bool" where
  "all_succeed U s [] = True"
| "all_succeed U s (r # rs) =
     (is_add r \<and> succeeds U s r \<and> all_succeed U (fst (handle U s r)) rs)"

datatype stored =
    StoredNote reminder
  | StoredMood mood_entry
  | StoredTask task_entry
  | StoredSession session_entry

fun expected :: "unicode_db \<Rightarrow> nat \<Rightarrow> request \<Rightarrow> stored list" where
  "expected U n (AddNote note_data now) =
     [StoredNote \<lparr>note_text = note_text note_data, category = category note_data,
        priority = priority note_data,
        note_keywords = extract_keywords U (note_text note_data), timestamp = now\<rparr>]"
| "expected U n (MoodCheck mood_data polarity subjectivity now) =
     [StoredMood \<lparr>mood_text = mood_text mood_data,
        mood = fst (classify_mood U polarity subjectivity (mood_text mood_data)),
        tip = snd (classify_mood U polarity subjectivity (mood_text mood_data)),
        mood_timestamp = now\<rparr>]"
| "expected U n (AddTask task now) =
     [StoredTask \<lparr>title = title task, description = description task,
        due_date = due_date task, subject = subject task,
        task_priority = task_priority task, status = status task,
        task_id = str_nat (n + 1), task_timestamp = now\<rparr>]"
| "expected U n (RecordStudySession session now generator) =
     [StoredSession \<lparr>session_subject = session_subject session, duration = duration session,
        goals = goals session, completed_goals = completed_goals session,
        session_timestamp = now\<rparr>]"
| "expected U n r = []"

fun the_notes :: "stored list \<Rightarrow> reminder list" where
  "the_notes [] = []"
| "the_notes (StoredNote r # xs) = r # the_notes xs"
| "the_notes (x # xs) = the_notes xs"

fun the_moods :: "stored list \<Rightarrow> mood_entry list" where
  "the_moods [] = []"
| "the_moods (StoredMood m # xs) = m # the_moods xs"
| "the_moods (x # xs) = the_moods xs"

fun the_tasks :: "stored list \<Rightarrow> task_entry list" where
  "the_tasks [] = []"
| "the_tasks (StoredTask t # xs) = t # the_tasks xs"
| "the_tasks (x # xs) = the_tasks xs"

fun the_sessions :: "stored list \<Rightarrow> session_entry list" where
  "the_sessions [] = []"
| "the_sessions (StoredSession e # xs) = e # the_sessions xs"
| "the_sessions (x # xs) = the_sessions xs"

fun records :: "unicode_db \<Rightarrow> nat \<Rightarrow> request list \<Rightarrow> stored list" where
  "records U n [] = []"
| "records U n (r # rs) =
     expected U n r @ records U (n + length (the_tasks (expected U n r))) rs"

subsection \<open>The statistics as the specification words them\<close>

definition subject_minutes :: "session_entry list \<Rightarrow> str \<Rightarrow> int" where
  \<comment> \<open>the summed duration of the sessions of a subject\<close>
  "subject_minutes sessions subj =
     sum_list (map duration (filter (\<lambda>e. session_subject e = subj) sessions))"

definition completed_count :: "store \<Rightarrow> nat" where
  "completed_count s = length (filter (\<lambda>t. status t = py ''completed'') (tasks s))"

subsection \<open>Sample requests\<close>

definition sample_task :: "str \<Rightarrow> str \<Rightarrow> Task" where
  "sample_task ttl subj =
     \<lparr>title = ttl, description = py ''exercises'', due_date = py ''2024-06-01'', subject = subj,
      task_priority = 2, status = Task_default_status\<rparr>"

definition sample_note :: "str \<Rightarrow> Note" where
  "sample_note body = \<lparr>note_text = body, category = py ''Homework'', priority = Some 1\<rparr>"

definition sample_session :: "str \<Rightarrow> int \<Rightarrow> StudySession" where
  "sample_session subj d =
     \<lparr>session_subject = subj, duration = d, goals = [py ''revise''], completed_goals = []\<rparr>"

definition busy_store :: store where
  \<comment> \<open>no task yet, the other stores not empty\<close>
  "busy_store =
     \<lparr>reminders = [\<lparr>note_text = py ''Read chapter 4'', category = py ''Homework'',
                      priority = Some 1, note_keywords = [py ''read'', py ''chapter''],
                      timestamp = py ''2024-05-01T09:00:00''\<rparr>],
      moods = [],
      tasks = [],
      study_sessions = [\<lparr>session_subject = py ''Physics'', duration = 45, goals = [],
                          completed_goals = [], session_timestamp = py ''2024-05-01T10:00:00''\<rparr>,
                        \<lparr>session_subject = py ''Physics'', duration = 30, goals = [],
                          completed_goals = [], session_timestamp = py ''2024-05-02T10:00:00''\<rparr>]\<rparr>"

definition stored_task :: "str \<Rightarrow> str \<Rightarrow> task_entry" where
  "stored_task tid ttl =
     \<lparr>title = ttl, description = py ''exercises'', due_date = py ''2024-06-01'',
      subject = py ''Physics'', task_priority = 1, status = py ''pending'', task_id = tid,
      task_timestamp = py ''2024-05-03T08:00:00''\<rparr>"

definition task_store :: store where
  \<comment> \<open>a store in which two tasks carry the id "1"\<close>
  "task_store =
     busy_store\<lparr>tasks := [stored_task (py ''1'') (py ''A''), stored_task (py ''2'') (py ''B''),
                          stored_task (py ''1'') (py ''C'')]\<rparr>"

definition stored_session :: "str \<Rightarrow> int \<Rightarrow> session_entry" where
  "stored_session subj d =
     \<lparr>session_subject = subj, duration = d, goals = [py ''revise''], completed_goals = [],
      session_timestamp = py ''2024-05-04T08:00:00''\<rparr>"

definition stats_store :: store where
  \<comment> \<open>sessions of 30 and 90 minutes of Mathematics and one of 60 minutes of Physics, three
      tasks of which one is completed, one note\<close>
  "stats_store =
     \<lparr>reminders = reminders busy_store,
      moods = [],
      tasks = [stored_task (py ''1'') (py ''A''),
               (stored_task (py ''2'') (py ''B''))\<lparr>status := py ''completed''\<rparr>,
               stored_task (py ''3'') (py ''C'')],
      study_sessions = [stored_session (py ''Mathematics'') 30, stored_session (py ''Physics'') 60,
                        stored_session (py ''Mathematics'') 90]\<rparr>"

subsection \<open>Mood labels\<close>

definition mood_words :: "str list" where
  \<comment> \<open>the three words \<open>get_study_stats\<close> looks for in a mood label\<close>
  "mood_words = [py ''Happy'', py ''Neutral'', py ''Sad'']"

definition one_mood_word :: "str \<Rightarrow> bool" where
  \<comment> \<open>exactly one of the three words occurs in the label\<close>
  "one_mood_word label = (length (filter (\<lambda>w. str_in w label) mood_words) = 1)"

definition labelled :: "store \<Rightarrow> bool" where
  \<comment> \<open>every stored mood carries one of the three labels of \<open>mood_check\<close>\<close>
  "labelled s = (\<forall>m \<in> set (moods s). mood m \<in> {happy_label, sad_label, neutral_label})"

section \<open>Literals\<close>

lemma py_eq_iff [simp]: "py a = py b \<longleftrightarrow> a = b"
  by (simp add: py_def inj_map_eq_map inj_def)

lemma py_Nil [simp]: "py [] = []"
  by (simp add: py_def)

section \<open>Keyword extraction\<close>

lemma match_word_at_word:
  assumes "isw c"
  shows "match_word isw (c # cs) = Some (Suc (length (takeWhile isw cs)))"
proof -
  let ?m = "length (takeWhile isw cs)"
  have cands: "rev [1 ..< Suc (length (takeWhile isw (c # cs)))] = Suc ?m # rev [1 ..< Suc ?m]"
    using assms by simp
  have before: "char_at (c # cs) (Suc ?m - 1) = Some ((c # cs) ! ?m)"
    using length_takeWhile_le [of isw cs] by (simp add: char_at_def)
  have "(c # cs) ! ?m \<in> set (takeWhile isw (c # cs))"
    using assms nth_mem [of ?m "takeWhile isw (c # cs)"] takeWhile_nth [of ?m isw "c # cs"]
    by simp
  then have inside: "isw ((c # cs) ! ?m)"
    by (rule set_takeWhileD [THEN conjunct2])
  have outside: "\<not> is_word isw (char_at (c # cs) (Suc ?m))"
  proof (cases "?m < length cs")
    case True
    then have "\<not> isw (cs ! ?m)"
      by (rule nth_length_takeWhile)
    with True show ?thesis
      by (simp add: char_at_def is_word_def)
  next
    case False
    then show ?thesis
      by (simp add: char_at_def is_word_def)
  qed
  have "word_boundary isw (char_at (c # cs) (Suc ?m - 1)) (char_at (c # cs) (Suc ?m))"
    unfolding before word_boundary_def using inside outside by (simp add: is_word_def)
  then show ?thesis
    unfolding match_word_def cands by simp
qed

lemma match_word_at_other:
  assumes "\<not> isw c"
  shows "match_word isw (c # cs) = None"
  using assms by (simp add: match_word_def)

lemma take_run: "isw c \<Longrightarrow> take (Suc (length (takeWhile isw cs))) (c # cs) = c # takeWhile isw cs"
  by (simp add: takeWhile_eq_take [symmetric])

lemma drop_run: "drop (Suc (length (takeWhile isw cs))) (c # cs) = dropWhile isw cs"
  by (simp add: dropWhile_eq_drop [symmetric])

lemma last_of_run:
  assumes "isw c"
  shows "is_word isw (char_at (c # cs) (Suc (length (takeWhile isw cs)) - 1))"
proof -
  let ?m = "length (takeWhile isw cs)"
  have "(c # cs) ! ?m \<in> set (takeWhile isw (c # cs))"
    using assms nth_mem [of ?m "takeWhile isw (c # cs)"] takeWhile_nth [of ?m isw "c # cs"]
    by simp
  then have "isw ((c # cs) ! ?m)"
    by (rule set_takeWhileD [THEN conjunct2])
  then show ?thesis
    using length_takeWhile_le [of isw cs] by (simp add: char_at_def is_word_def)
qed

lemma findall_words_runs:
  "findall_words isw before s =
     (if is_word isw before then maximal_runs isw (dropWhile isw s) else maximal_runs isw s)"
proof (induction isw before s rule: findall_words.induct)
  case (1 isw before)
  show ?case by simp
next
  case (2 isw before c cs)
  show ?case
  proof (cases "isw c")
    case word: True
    show ?thesis
    proof (cases "is_word isw before")
      case True
      then have nb: "\<not> word_boundary isw before (Some c)"
        using word by (simp add: word_boundary_def is_word_def)
      have "findall_words isw before (c # cs) = findall_words isw (Some c) cs"
        using nb by simp
      also have "\<dots> = maximal_runs isw (dropWhile isw cs)"
        using "2.IH"(3) [OF nb] word by (simp add: is_word_def)
      finally show ?thesis
        using True word by simp
    next
      case False
      then have b: "word_boundary isw before (Some c)"
        using word by (simp add: word_boundary_def is_word_def)
      let ?k = "Suc (length (takeWhile isw cs))"
      have m: "match_word isw (c # cs) = Some ?k"
        using word by (rule match_word_at_word)
      have "findall_words isw before (c # cs) =
          take ?k (c # cs) # findall_words isw (char_at (c # cs) (?k - 1)) (drop ?k (c # cs))"
        using b m by simp
      also have "findall_words isw (char_at (c # cs) (?k - 1)) (drop ?k (c # cs)) =
          maximal_runs isw (dropWhile isw (drop ?k (c # cs)))"
        using "2.IH"(2) [OF b m] last_of_run [of isw c cs, OF word] by simp
      finally show ?thesis
        using False word by (simp only: take_run [of isw c cs, OF word] drop_run dropWhile_idem)
          (simp add: word)
    qed
  next
    case other: False
    have rest: "findall_words isw (Some c) cs = maximal_runs isw cs"
    proof (cases "word_boundary isw before (Some c)")
      case True
      then show ?thesis
        using "2.IH"(1) [OF True match_word_at_other [of isw c cs, OF other]] other by (simp add: is_word_def)
    next
      case False
      then show ?thesis
        using "2.IH"(3) [OF False] other by (simp add: is_word_def)
    qed
    have "findall_words isw before (c # cs) = findall_words isw (Some c) cs"
      using match_word_at_other [of isw c cs, OF other] by simp
    then show ?thesis
      using rest other by simp
  qed
qed

lemma maximal_runs_separator:
  "\<forall>c \<in> set sep. \<not> isw c \<Longrightarrow> maximal_runs isw (sep @ s) = maximal_runs isw s"
  by (induction sep) simp_all

lemma maximal_runs_run:
  assumes "w \<noteq> []" and "\<forall>c \<in> set w. isw c" and "s = [] \<or> \<not> isw (hd s)"
  shows "maximal_runs isw (w @ s) = w # maximal_runs isw s"
proof -
  obtain c cs where w: "w = c # cs"
    using assms(1) by (cases w) auto
  have "takeWhile isw (cs @ s) = cs" and "dropWhile isw (cs @ s) = s"
    using assms(2,3) w by (cases s; simp add: takeWhile_append2 dropWhile_append2)+
  then show ?thesis
    using assms(2) w by simp
qed

lemma comprehension_filter:
  "concat (map (\<lambda>x. if P x then [f x] else []) xs) = map f (filter P xs)"
  by (induction xs) simp_all

text \<open>
  C1. For every note text and every Unicode database, the keywords \<open>add_note\<close> extracts
  are the maximal runs of word characters of the text (the characters of \<open>\w\<close>:
  alphanumeric, or the underscore) that are longer than 3 characters and whose lower-casing
  is not one of the stop words "have", "that", "with", "this", each lower-cased, in the order
  of the text, duplicates kept. \<open>maximal_runs\<close> is characterised by
  \<open>maximal_runs_separator\<close> and \<open>maximal_runs_run\<close>. The example is the text
  "Cafe notes WITH Ete_2, that notes" with its accents, the letters U+00E9 and U+00C9.
\<close>

theorem extract_keywords_spec: "extract_keywords U note = spec_keywords U note"
  by (simp add: extract_keywords_def spec_keywords_def findall_words_runs is_word_def
      comprehension_filter conj_commute)

theorem extract_keywords_spec_witness:
  "extract_keywords latin1_db
     (py ''Caf'' @ [0xE9] @ py '' notes WITH '' @ [0xC9] @ py ''t'' @ [0xE9] @
      py ''_2, that notes'') =
     [py ''caf'' @ [0xE9], py ''notes'', [0xE9] @ py ''t'' @ [0xE9] @ py ''_2'', py ''notes'']"
  unfolding extract_keywords_spec by code_simp

section \<open>Mood classification\<close>

lemma lit_0_2_near_one_fifth: "\<bar>lit_0_2 - 1 / 5\<bar> < 1 / 2 ^ 56"
  by (simp add: lit_0_2_def abs_if)

lemma classify_mood_happy:
  "lit_0_2 < p \<Longrightarrow> classify_mood U p sj msg =
     (happy_label,
      if lit_0_5 < sj then py ''Great mood! Find a quiet study space''
      else py ''Excellent! Study with a friend or study group'')"
  by (simp add: classify_mood_def focus_tips_def motivation_tips_def py_def)

lemma lit_0_2_pos: "0 < lit_0_2"
  by (simp add: lit_0_2_def)

lemma classify_mood_sad:
  assumes "p < - lit_0_2"
  shows "classify_mood U p sj msg =
     (sad_label,
      if str_in (py ''tired'') (lower U msg) \<or> str_in (py ''exhausted'') (lower U msg)
      then py ''Take a refreshing break! Take regular short breaks''
      else py ''It's okay to feel down. Reward yourself after completing tasks'')"
proof -
  have "\<not> lit_0_2 < p"
    using assms lit_0_2_pos by linarith
  then show ?thesis
    using assms by (simp add: classify_mood_def focus_tips_def motivation_tips_def py_def)
qed

lemma classify_mood_neutral:
  "- lit_0_2 \<le> p \<Longrightarrow> p \<le> lit_0_2 \<Longrightarrow> classify_mood U p sj msg =
     (neutral_label, py ''Stay focused! Create mind maps for complex topics'')"
  by (simp add: classify_mood_def memory_tips_def py_def)

text \<open>
  C2. \<open>mood_check\<close> classifies by strict comparisons with the float literals: a polarity
  above \<open>0.2\<close> gives the Happy label, the tip chosen by \<open>subjectivity > 0.5\<close>; a
  polarity below \<open>-0.2\<close> gives the Sad label, the tip chosen by whether the lower-cased
  text contains "tired" or "exhausted"; every other polarity, the two literals themselves
  included, gives the Neutral label and its one tip. For a text that is not blank the body
  returned and the record stored are these two strings and the text, whatever the stores
  hold: the result is a function of polarity, subjectivity and text. A blank text (empty
  once the Unicode white space at its ends is stripped) is refused with status 400 and
  nothing is stored. The labels are the strings of \<open>app.py\<close>, each an emoji, a space and
  the word.
\<close>

theorem mood_check_classification:
  "(lit_0_2 < p \<longrightarrow> classify_mood U p sj msg =
      (happy_label,
       if lit_0_5 < sj then py ''Great mood! Find a quiet study space''
       else py ''Excellent! Study with a friend or study group'')) \<and>
   (p < - lit_0_2 \<longrightarrow> classify_mood U p sj msg =
      (sad_label,
       if str_in (py ''tired'') (lower U msg) \<or> str_in (py ''exhausted'') (lower U msg)
       then py ''Take a refreshing break! Take regular short breaks''
       else py ''It's okay to feel down. Reward yourself after completing tasks'')) \<and>
   (- lit_0_2 \<le> p \<and> p \<le> lit_0_2 \<longrightarrow> classify_mood U p sj msg =
      (neutral_label, py ''Stay focused! Create mind maps for complex topics'')) \<and>
   fst (classify_mood U lit_0_2 sj msg) = neutral_label \<and>
   fst (classify_mood U (- lit_0_2) sj msg) = neutral_label \<and>
   (strip msg \<noteq> [] \<longrightarrow>
      mood_check U s \<lparr>mood_text = msg\<rparr> p sj now =
        (s\<lparr>moods := moods s @
            [\<lparr>mood_text = msg, mood = fst (classify_mood U p sj msg),
              tip = snd (classify_mood U p sj msg), mood_timestamp = now\<rparr>]\<rparr>,
         Inr (MoodChecked (fst (classify_mood U p sj msg)) (snd (classify_mood U p sj msg))
                msg))) \<and>
   (strip msg = [] \<longrightarrow>
      mood_check U s \<lparr>mood_text = msg\<rparr> p sj now =
        (s, Inl (HTTPException 400 (py ''Text cannot be empty''))))"
proof -
  have "fst (classify_mood U lit_0_2 sj msg) = neutral_label"
    using classify_mood_neutral [of lit_0_2 U sj msg] lit_0_2_pos by simp
  moreover have "fst (classify_mood U (- lit_0_2) sj msg) = neutral_label"
    using classify_mood_neutral [of "- lit_0_2" U sj msg] lit_0_2_pos by simp
  moreover have "strip msg \<noteq> [] \<longrightarrow>
      mood_check U s \<lparr>mood_text = msg\<rparr> p sj now =
        (s\<lparr>moods := moods s @
            [\<lparr>mood_text = msg, mood = fst (classify_mood U p sj msg),
              tip = snd (classify_mood U p sj msg), mood_timestamp = now\<rparr>]\<rparr>,
         Inr (MoodChecked (fst (classify_mood U p sj msg)) (snd (classify_mood U p sj msg))
                msg))"
    by (simp add: mood_check_def split: prod.split)
  moreover have "strip msg = [] \<longrightarrow>
      mood_check U s \<lparr>mood_text = msg\<rparr> p sj now =
        (s, Inl (HTTPException 400 (py ''Text cannot be empty'')))"
    by (simp add: mood_check_def)
  ultimately show ?thesis
    using classify_mood_happy [of p U sj msg] classify_mood_sad [of p U sj msg]
      classify_mood_neutral [of p U sj msg]
    by blast
qed

theorem mood_check_classification_witness:
  "classify_mood latin1_db (1 / 2) (3 / 4) (py ''I love this course'') =
     (happy_label, py ''Great mood! Find a quiet study space'') \<and>
   classify_mood latin1_db (- 1 / 2) 0 (py ''So TIRED of exams'') =
     (sad_label, py ''Take a refreshing break! Take regular short breaks'') \<and>
   classify_mood latin1_db lit_0_2 1 (py ''fine'') =
     (neutral_label, py ''Stay focused! Create mind maps for complex topics'') \<and>
   mood_check latin1_db initial_store \<lparr>mood_text = py ''fine''\<rparr> lit_0_2 1
       (py ''2024-01-01T10:00:00'') =
     (\<lparr>reminders = [],
       moods = [\<lparr>mood_text = py ''fine'', mood = neutral_label,
                 tip = py ''Stay focused! Create mind maps for complex topics'',
                 mood_timestamp = py ''2024-01-01T10:00:00''\<rparr>],
       tasks = [], study_sessions = []\<rparr>,
      Inr (MoodChecked neutral_label (py ''Stay focused! Create mind maps for complex topics'')
             (py ''fine''))) \<and>
   mood_check latin1_db initial_store \<lparr>mood_text = [0xA0, 0x20, 0x3000]\<rparr> (1 / 2) 1
       (py ''2024-01-01T10:00:00'') =
     (initial_store, Inl (HTTPException 400 (py ''Text cannot be empty'')))"
proof -
  have a: "lit_0_2 < 1 / 2" "lit_0_5 < 3 / 4" "- 1 / 2 < - lit_0_2"
    by (simp_all add: lit_0_2_def lit_0_5_def)
  have b: "str_in (py ''tired'') (lower latin1_db (py ''So TIRED of exams''))"
    by (simp add: lower_def latin1_db_def latin1_lower_def py_def)
  have c: "strip (py ''fine'') \<noteq> []"
    by (simp add: strip_def isspace_def whitespace_def py_def)
  have d: "strip [0xA0, 0x20, 0x3000] = []"
    by (simp add: strip_def isspace_def whitespace_def)
  show ?thesis
    using mood_check_classification [of "1 / 2" latin1_db "3 / 4" "py ''I love this course''"]
      mood_check_classification [of "- 1 / 2" latin1_db 0 "py ''So TIRED of exams''"]
      mood_check_classification [of lit_0_2 latin1_db 1 "py ''fine''" initial_store
        "py ''2024-01-01T10:00:00''"]
      mood_check_classification [of "1 / 2" latin1_db 1 "[0xA0, 0x20, 0x3000]" initial_store
        "py ''2024-01-01T10:00:00''"]
      a b c d lit_0_2_pos
    by (simp add: initial_store_def)
qed

section \<open>Task ids\<close>

declare str_nat.simps [simp del] bit_length.simps [simp del]

lemma nat_of_str_snoc: "nat_of_str (ds @ [c]) = 10 * nat_of_str ds + (c - 48)"
  by (simp add: nat_of_str_def)

lemma nat_of_str_str_nat: "nat_of_str (str_nat n) = n"
proof (induction n rule: str_nat.induct)
  case (1 n)
  show ?case
  proof (cases "n < 10")
    case True
    then show ?thesis
      by (subst str_nat.simps) (simp add: nat_of_str_def digit_char_def)
  next
    case False
    then have "nat_of_str (str_nat n) = 10 * nat_of_str (str_nat (n div 10)) + n mod 10"
      by (subst str_nat.simps) (simp add: nat_of_str_snoc digit_char_def)
    then show ?thesis
      using "1.IH" False by simp
  qed
qed

lemma inj_str_nat: "inj str_nat"
  by (rule inj_on_inverseI [of _ nat_of_str]) (rule nat_of_str_str_nat)

lemma update_first_ids:
  "update_first ts tid st = Some (ts', u) \<Longrightarrow> map task_id ts' = map task_id ts"
  by (induction ts arbitrary: ts' u) (auto split: if_splits option.splits)

lemma new_id_add_task:
  "new_id U s (AddTask task now) =
     (if subject task \<in> set SUBJECTS then [str_nat (length (tasks s) + 1)] else [])"
  by (simp add: new_id_def add_task_def Let_def)

lemma new_id_other: "(\<And>task now. r \<noteq> AddTask task now) \<Longrightarrow> new_id U s r = []"
  by (cases r)
    (auto simp: new_id_def add_note_def mood_check_def record_study_session_def
      get_study_stats_def get_study_tips_def update_task_status_def all_data_def Let_def
      split: prod.splits option.splits)

lemma new_id_valid:
  "new_id U s r = (if valid_add_task r then [str_nat (length (tasks s) + 1)] else [])"
  by (cases r) (simp_all add: new_id_add_task new_id_other)

lemma task_ids_step:
  "map task_id (tasks (fst (handle U s r))) = map task_id (tasks s) @ new_id U s r"
proof (cases r)
  case (AddTask task now)
  then show ?thesis
    by (simp add: new_id_add_task) (simp add: add_task_def Let_def)
next
  case (UpdateTaskStatus tid task_update)
  then show ?thesis
    by (auto simp: new_id_other update_task_status_def update_first_ids
        split: option.splits prod.splits)
qed (auto simp: new_id_other add_note_def mood_check_def record_study_session_def
      get_study_stats_def get_study_tips_def all_data_def Let_def split: prod.splits option.splits)

lemma task_count_step:
  "length (tasks (fst (handle U s r))) = length (tasks s) + (if valid_add_task r then 1 else 0)"
  using task_ids_step [of U s r, THEN arg_cong, of length] by (simp add: new_id_valid)

lemma task_count_run:
  "length (tasks (run U s reqs)) = length (tasks s) + length (filter valid_add_task reqs)"
  by (induction reqs arbitrary: s) (simp_all add: task_count_step)

lemma added_ids_from:
  "added_ids U s reqs =
     map str_nat [length (tasks s) + 1 ..<
                  length (tasks s) + 1 + length (filter valid_add_task reqs)]"
proof (induction reqs arbitrary: s)
  case Nil
  show ?case by simp
next
  case (Cons r rs)
  let ?s' = "fst (handle U s r)"
  let ?n = "length (tasks s)"
  let ?k = "length (filter valid_add_task rs)"
  show ?case
  proof (cases "valid_add_task r")
    case False
    then have "length (tasks ?s') = ?n"
      by (simp add: task_count_step)
    then show ?thesis
      using Cons.IH [of ?s'] False by (simp add: new_id_valid)
  next
    case True
    then have len: "length (tasks ?s') = ?n + 1"
      by (simp add: task_count_step)
    have "[?n + 1 ..< ?n + 1 + (1 + ?k)] = (?n + 1) # [?n + 1 + 1 ..< ?n + 1 + 1 + ?k]"
      by (simp add: upt_rec)
    then show ?thesis
      using Cons.IH [of ?s'] True len by (simp add: new_id_valid)
  qed
qed

lemma run_task_ids:
  "map task_id (tasks (run U s reqs)) = map task_id (tasks s) @ added_ids U s reqs"
  by (induction reqs arbitrary: s) (simp_all add: task_ids_step)

lemma add_task_accepts:
  assumes "subject task \<in> set SUBJECTS"
  shows "\<exists>e. add_task s task now = (s\<lparr>tasks := tasks s @ [e]\<rparr>, Inr (TaskAdded e)) \<and>
    task_id e = str_nat (Suc (length (tasks s))) \<and>
    Task.truncate e = task \<and> task_timestamp e = now"
  using assms by (simp add: add_task_def Let_def Task.truncate_def)

text \<open>
  C3. Start with an empty task store, whatever the other three stores hold, and serve any
  requests, the calls of \<open>add_task\<close> mixed with calls of the other handlers. Every call of
  \<open>add_task\<close> with valid data (a subject of \<open>SUBJECTS\<close>) succeeds and is given an id:
  after requests of which k are such calls, the next one stores and returns the task of
  the request with the id \<open>str(k + 1)\<close>. So the ids handed out, in the order of the
  calls, are "1", "2", ..., "N", N being the number of calls with valid data; they are the
  ids of the task store afterwards, and they are distinct.
\<close>

theorem add_task_ids:
  assumes "tasks s = []"
  shows "added_ids U s reqs = map str_nat [1 ..< Suc (length (filter valid_add_task reqs))] \<and>
    (subject task \<in> set SUBJECTS \<longrightarrow>
       (\<exists>e. add_task (run U s reqs) task now =
              ((run U s reqs)\<lparr>tasks := tasks (run U s reqs) @ [e]\<rparr>, Inr (TaskAdded e)) \<and>
            task_id e = str_nat (Suc (length (filter valid_add_task reqs))) \<and>
            Task.truncate e = task \<and> task_timestamp e = now)) \<and>
    map task_id (tasks (run U s reqs)) = added_ids U s reqs \<and>
    distinct (map task_id (tasks (run U s reqs)))"
proof -
  let ?n = "length (filter valid_add_task reqs)"
  have ids: "added_ids U s reqs = map str_nat [1 ..< Suc ?n]"
    using added_ids_from [of U s reqs] assms by simp
  have count: "length (tasks (run U s reqs)) = ?n"
    using task_count_run [of U s reqs] assms by simp
  have next_call: "subject task \<in> set SUBJECTS \<longrightarrow>
       (\<exists>e. add_task (run U s reqs) task now =
              ((run U s reqs)\<lparr>tasks := tasks (run U s reqs) @ [e]\<rparr>, Inr (TaskAdded e)) \<and>
            task_id e = str_nat (Suc ?n) \<and>
            Task.truncate e = task \<and> task_timestamp e = now)"
    using add_task_accepts [of task "run U s reqs" now] count by simp
  have stored: "map task_id (tasks (run U s reqs)) = added_ids U s reqs"
    using run_task_ids [of U s reqs] assms by simp
  have "distinct (map str_nat [1 ..< Suc ?n])"
    by (simp add: distinct_map inj_on_subset [OF inj_str_nat])
  then have "distinct (added_ids U s reqs)"
    using ids by simp
  then show ?thesis
    using ids next_call stored by simp
qed

theorem add_task_ids_witness:
  "added_ids latin1_db busy_store
     [AddTask (sample_task (py ''Sheet 1'') (py ''Physics'')) (py ''t1''),
      AddNote (sample_note (py ''Integrate by parts'')) (py ''t2''),
      AddTask (sample_task (py ''Sheet 2'') (py ''Alchemy'')) (py ''t3''),
      UpdateTaskStatus (py ''1'') \<lparr>new_status = py ''completed''\<rparr>,
      AddTask (sample_task (py ''Sheet 3'') (py ''Biology'')) (py ''t4'')] =
     [py ''1'', py ''2''] \<and>
   (\<exists>e. snd (add_task (run latin1_db busy_store
     [AddTask (sample_task (py ''Sheet 1'') (py ''Physics'')) (py ''t1''),
      AddNote (sample_note (py ''Integrate by parts'')) (py ''t2''),
      AddTask (sample_task (py ''Sheet 2'') (py ''Alchemy'')) (py ''t3''),
      UpdateTaskStatus (py ''1'') \<lparr>new_status = py ''completed''\<rparr>,
      AddTask (sample_task (py ''Sheet 3'') (py ''Biology'')) (py ''t4'')])
        (sample_task (py ''Sheet 4'') (py ''History'')) (py ''t5'')) = Inr (TaskAdded e) \<and>
      task_id e = py ''3'' \<and> title e = py ''Sheet 4'') \<and>
   distinct (map task_id (tasks (run latin1_db busy_store
     [AddTask (sample_task (py ''Sheet 1'') (py ''Physics'')) (py ''t1''),
      AddNote (sample_note (py ''Integrate by parts'')) (py ''t2''),
      AddTask (sample_task (py ''Sheet 2'') (py ''Alchemy'')) (py ''t3''),
      UpdateTaskStatus (py ''1'') \<lparr>new_status = py ''completed''\<rparr>,
      AddTask (sample_task (py ''Sheet 3'') (py ''Biology'')) (py ''t4'')])))"
proof -
  let ?reqs = "[AddTask (sample_task (py ''Sheet 1'') (py ''Physics'')) (py ''t1''),
      AddNote (sample_note (py ''Integrate by parts'')) (py ''t2''),
      AddTask (sample_task (py ''Sheet 2'') (py ''Alchemy'')) (py ''t3''),
      UpdateTaskStatus (py ''1'') \<lparr>new_status = py ''completed''\<rparr>,
      AddTask (sample_task (py ''Sheet 3'') (py ''Biology'')) (py ''t4'')]"
  let ?task = "sample_task (py ''Sheet 4'') (py ''History'')"
  have empty: "tasks busy_store = []"
    by (simp add: busy_store_def)
  have valid: "subject ?task \<in> set SUBJECTS"
    by (simp add: sample_task_def SUBJECTS_def)
  have two: "length (filter valid_add_task ?reqs) = 2"
    by (simp add: sample_task_def SUBJECTS_def)
  have strs: "map str_nat [1 ..< Suc 2] = [py ''1'', py ''2'']" "str_nat (Suc 2) = py ''3''"
    by (simp_all add: upt_rec str_nat.simps digit_char_def py_def)
  have ttl: "title e = py ''Sheet 4''" if "Task.truncate e = ?task" for e :: task_entry
    using that [THEN arg_cong, of title] by (simp add: Task.truncate_def sample_task_def)
  note main = add_task_ids [OF empty, of latin1_db ?reqs ?task "py ''t5''"]
  have ids: "added_ids latin1_db busy_store ?reqs = [py ''1'', py ''2'']"
    using main [THEN conjunct1] by (simp only: two strs)
  obtain e where e: "add_task (run latin1_db busy_store ?reqs) ?task (py ''t5'') =
        ((run latin1_db busy_store ?reqs)\<lparr>tasks := tasks (run latin1_db busy_store ?reqs) @ [e]\<rparr>,
         Inr (TaskAdded e))"
      "task_id e = str_nat (Suc (length (filter valid_add_task ?reqs)))"
      "Task.truncate e = ?task"
    using main valid by blast
  have "snd (add_task (run latin1_db busy_store ?reqs) ?task (py ''t5'')) = Inr (TaskAdded e) \<and>
      task_id e = py ''3'' \<and> title e = py ''Sheet 4''"
    by (simp only: e(1) e(2) two strs ttl [OF e(3)] snd_conv simp_thms)
  then have next_call: "\<exists>e. snd (add_task (run latin1_db busy_store ?reqs) ?task (py ''t5'')) =
      Inr (TaskAdded e) \<and> task_id e = py ''3'' \<and> title e = py ''Sheet 4''"
    by blast
  have "distinct (map task_id (tasks (run latin1_db busy_store ?reqs)))"
    using main by blast
  then show ?thesis
    using ids next_call by blast
qed

section \<open>Updating the status of a task\<close>

lemma update_first_missing:
  "tid \<notin> task_id ` set ts \<Longrightarrow> update_first ts tid st = None"
  by (induction ts) auto

lemma update_first_found:
  "tid \<in> task_id ` set ts \<Longrightarrow>
     \<exists>i<length ts. task_id (ts ! i) = tid \<and> (\<forall>j<i. task_id (ts ! j) \<noteq> tid) \<and>
       update_first ts tid st = Some (ts[i := (ts ! i)\<lparr>status := st\<rparr>], (ts ! i)\<lparr>status := st\<rparr>)"
proof (induction ts)
  case Nil
  then show ?case by simp
next
  case (Cons t ts)
  show ?case
  proof (cases "task_id t = tid")
    case True
    then have "task_id ((t # ts) ! 0) = tid \<and> (\<forall>j<0. task_id ((t # ts) ! j) \<noteq> tid) \<and>
        update_first (t # ts) tid st =
          Some ((t # ts)[0 := ((t # ts) ! 0)\<lparr>status := st\<rparr>], ((t # ts) ! 0)\<lparr>status := st\<rparr>)"
      by simp
    then show ?thesis
      by (intro exI [of _ 0]) simp
  next
    case False
    then have "tid \<in> task_id ` set ts"
      using Cons.prems by auto
    then obtain i where i: "i < length ts" "task_id (ts ! i) = tid"
        "\<forall>j<i. task_id (ts ! j) \<noteq> tid"
        "update_first ts tid st = Some (ts[i := (ts ! i)\<lparr>status := st\<rparr>], (ts ! i)\<lparr>status := st\<rparr>)"
      using Cons.IH by blast
    have first: "\<forall>j<Suc i. task_id ((t # ts) ! j) \<noteq> tid"
    proof (intro allI impI)
      fix j
      assume "j < Suc i"
      then show "task_id ((t # ts) ! j) \<noteq> tid"
        using False i(3) by (cases j) auto
    qed
    have "update_first (t # ts) tid st =
        Some ((t # ts)[Suc i := ((t # ts) ! Suc i)\<lparr>status := st\<rparr>],
              ((t # ts) ! Suc i)\<lparr>status := st\<rparr>)"
      using False i(4) by simp
    then show ?thesis
      using i(1,2) first by (intro exI [of _ "Suc i"]) simp
  qed
qed

text \<open>
  C5. With a valid new status, \<open>update_task_status\<close> on an id of the task store replaces
  the status of the first task with that id and nothing else: the other fields of that task,
  the other tasks and the other three stores stay as they were, and the body carries the
  updated task. On an id that is not in the store it fails with status 404 (the
  NotFoundError) and the stores are unchanged.
\<close>

theorem update_task_status_frame:
  assumes "new_status task_update \<in> set TASK_STATUSES"
  shows "(tid \<in> task_id ` set (tasks s) \<longrightarrow>
      (\<exists>i<length (tasks s).
         task_id (tasks s ! i) = tid \<and> (\<forall>j<i. task_id (tasks s ! j) \<noteq> tid) \<and>
         update_task_status s tid task_update =
           (s\<lparr>tasks := (tasks s)[i := (tasks s ! i)\<lparr>status := new_status task_update\<rparr>]\<rparr>,
            Inr (TaskUpdated (py ''Task status updated'')
                   ((tasks s ! i)\<lparr>status := new_status task_update\<rparr>))))) \<and>
    (tid \<notin> task_id ` set (tasks s) \<longrightarrow>
       update_task_status s tid task_update = (s, Inl (HTTPException 404 (py ''Task not found''))))"
proof (intro conjI impI)
  assume "tid \<in> task_id ` set (tasks s)"
  then obtain i where i: "i < length (tasks s)" "task_id (tasks s ! i) = tid"
      "\<forall>j<i. task_id (tasks s ! j) \<noteq> tid"
      "update_first (tasks s) tid (new_status task_update) =
         Some ((tasks s)[i := (tasks s ! i)\<lparr>status := new_status task_update\<rparr>],
               (tasks s ! i)\<lparr>status := new_status task_update\<rparr>)"
    using update_first_found [of tid "tasks s" "new_status task_update"] by blast
  have "update_task_status s tid task_update =
      (s\<lparr>tasks := (tasks s)[i := (tasks s ! i)\<lparr>status := new_status task_update\<rparr>]\<rparr>,
       Inr (TaskUpdated (py ''Task status updated'')
              ((tasks s ! i)\<lparr>status := new_status task_update\<rparr>)))"
    using assms i(4) by (simp add: update_task_status_def)
  then show "\<exists>i<length (tasks s).
      task_id (tasks s ! i) = tid \<and> (\<forall>j<i. task_id (tasks s ! j) \<noteq> tid) \<and>
      update_task_status s tid task_update =
        (s\<lparr>tasks := (tasks s)[i := (tasks s ! i)\<lparr>status := new_status task_update\<rparr>]\<rparr>,
         Inr (TaskUpdated (py ''Task status updated'')
                ((tasks s ! i)\<lparr>status := new_status task_update\<rparr>)))"
    using i(1,2,3) by blast
next
  assume "tid \<notin> task_id ` set (tasks s)"
  then show "update_task_status s tid task_update =
      (s, Inl (HTTPException 404 (py ''Task not found'')))"
    using assms by (simp add: update_task_status_def update_first_missing)
qed

theorem update_task_status_frame_witness:
  "update_task_status task_store (py ''1'') \<lparr>new_status = py ''completed''\<rparr> =
     (task_store\<lparr>tasks := [(stored_task (py ''1'') (py ''A''))\<lparr>status := py ''completed''\<rparr>,
                           stored_task (py ''2'') (py ''B''), stored_task (py ''1'') (py ''C'')]\<rparr>,
      Inr (TaskUpdated (py ''Task status updated'')
             ((stored_task (py ''1'') (py ''A''))\<lparr>status := py ''completed''\<rparr>))) \<and>
   update_task_status task_store (py ''999'') \<lparr>new_status = py ''completed''\<rparr> =
     (task_store, Inl (HTTPException 404 (py ''Task not found'')))"
proof -
  let ?u = "\<lparr>new_status = py ''completed''\<rparr>"
  have valid: "new_status ?u \<in> set TASK_STATUSES"
    by (simp add: TASK_STATUSES_def)
  have ts: "tasks task_store = [stored_task (py ''1'') (py ''A''), stored_task (py ''2'') (py ''B''), stored_task (py ''1'') (py ''C'')]"
    by (simp add: task_store_def)
  have ids: "map task_id (tasks task_store) = [py ''1'', py ''2'', py ''1'']"
    by (simp add: ts stored_task_def)
  have present: "(py ''1'') \<in> task_id ` set (tasks task_store)"
    and absent: "(py ''999'') \<notin> task_id ` set (tasks task_store)"
    using ids [THEN arg_cong, of set] by auto
  obtain i where i: "i < length (tasks task_store)"
      "\<forall>j<i. task_id (tasks task_store ! j) \<noteq> (py ''1'')"
      "update_task_status task_store (py ''1'') ?u =
         (task_store\<lparr>tasks := (tasks task_store)[i := (tasks task_store ! i)\<lparr>status := new_status ?u\<rparr>]\<rparr>,
          Inr (TaskUpdated (py ''Task status updated'')
                 ((tasks task_store ! i)\<lparr>status := new_status ?u\<rparr>)))"
    using update_task_status_frame [OF valid, of "py ''1''" task_store] present by blast
  have "i = 0"
  proof (rule ccontr)
    assume "i \<noteq> 0"
    then have "task_id (tasks task_store ! 0) \<noteq> (py ''1'')"
      using i(2) by blast
    then show False
      by (simp add: ts stored_task_def)
  qed
  then have found: "update_task_status task_store (py ''1'') ?u =
     (task_store\<lparr>tasks := [(stored_task (py ''1'') (py ''A''))\<lparr>status := py ''completed''\<rparr>,
                           stored_task (py ''2'') (py ''B''), stored_task (py ''1'') (py ''C'')]\<rparr>,
      Inr (TaskUpdated (py ''Task status updated'')
             ((stored_task (py ''1'') (py ''A''))\<lparr>status := py ''completed''\<rparr>)))"
    using i(3) by (simp add: ts)
  show ?thesis
    using found update_task_status_frame [OF valid, of "py ''999''" task_store] absent by blast
qed

section \<open>Recording a study session\<close>

lemma randint_range: "a \<le> b \<Longrightarrow> a \<le> randint a b g \<and> randint a b g \<le> b"
proof -
  assume "a \<le> b"
  have "g mod (b - a + 1) < b - a + 1"
    by (rule mod_less_divisor) simp
  then show ?thesis
    unfolding randint_def using \<open>a \<le> b\<close> by linarith
qed

lemma randint_onto: "a \<le> n \<Longrightarrow> n \<le> b \<Longrightarrow> randint a b (n - a) = n"
  by (simp add: randint_def)

lemma session_tip_long:
  "120 < d \<Longrightarrow> session_tip d g = py ''Use the Pomodoro Technique (25 min study, 5 min break)''"
  by (simp add: session_tip_def focus_tips_def)

lemma session_tip_short: "d \<le> 120 \<Longrightarrow> session_tip d g \<in> set memory_tips"
proof -
  assume "d \<le> 120"
  have "randint 0 (length memory_tips - 1) g < length memory_tips"
    using randint_range [of 0 "length memory_tips - 1" g] by (simp add: memory_tips_def)
  then show ?thesis
    using \<open>d \<le> 120\<close> by (simp add: session_tip_def)
qed

lemma session_tip_any:
  assumes "d \<le> 120" and "m \<in> set memory_tips"
  shows "\<exists>g. session_tip d g = m"
proof -
  obtain i where i: "i < length memory_tips" "memory_tips ! i = m"
    using assms(2) by (auto simp: in_set_conv_nth)
  then have "randint 0 (length memory_tips - 1) i = i"
    using randint_onto [of 0 i "length memory_tips - 1"] by simp
  then have "session_tip d i = m"
    using assms(1) i(2) by (simp add: session_tip_def)
  then show ?thesis ..
qed

text \<open>
  C7. \<open>record_study_session\<close> fails, with status 400 (the ValidationError) and the stores
  unchanged, exactly when the subject is not in \<open>SUBJECTS\<close> or the duration is below 5 or
  above 480; 5 and 480 are accepted. Otherwise it appends the session and returns a tip: the
  Pomodoro tip when the duration is above 120, and else one of the four memory tips,
  whichever the random generator picks.
\<close>

theorem record_study_session_spec:
  "((\<exists>e. snd (record_study_session s session now g) = Inl e) \<longleftrightarrow>
      (session_subject session \<notin> set SUBJECTS \<or> duration session < 5 \<or>
       480 < duration session)) \<and>
   (\<forall>e. snd (record_study_session s session now g) = Inl e \<longrightarrow>
      status_code e = 400 \<and> fst (record_study_session s session now g) = s) \<and>
   (session_subject session \<in> set SUBJECTS \<and> 5 \<le> duration session \<and>
    duration session \<le> 480 \<longrightarrow>
      record_study_session s session now g =
        (s\<lparr>study_sessions := study_sessions s @
            [\<lparr>session_subject = session_subject session, duration = duration session,
              goals = goals session, completed_goals = completed_goals session,
              session_timestamp = now\<rparr>]\<rparr>,
         Inr (SessionRecorded (py ''Study session recorded '' @ check_mark)
                (session_tip (duration session) g) session)) \<and>
      (120 < duration session \<longrightarrow> session_tip (duration session) g =
         (py ''Use the Pomodoro Technique (25 min study, 5 min break)'')) \<and>
      (duration session \<le> 120 \<longrightarrow> session_tip (duration session) g \<in> set memory_tips)) \<and>
   length memory_tips = 4"
proof -
  have fails: "(\<exists>e. snd (record_study_session s session now g) = Inl e) \<longleftrightarrow>
      (session_subject session \<notin> set SUBJECTS \<or> duration session < 5 \<or>
       480 < duration session)"
    by (auto simp: record_study_session_def Let_def)
  have unchanged: "\<forall>e. snd (record_study_session s session now g) = Inl e \<longrightarrow>
      status_code e = 400 \<and> fst (record_study_session s session now g) = s"
    by (auto simp: record_study_session_def Let_def split: if_splits)
  have ok: "session_subject session \<in> set SUBJECTS \<and> 5 \<le> duration session \<and>
      duration session \<le> 480 \<longrightarrow>
      record_study_session s session now g =
        (s\<lparr>study_sessions := study_sessions s @
            [\<lparr>session_subject = session_subject session, duration = duration session,
              goals = goals session, completed_goals = completed_goals session,
              session_timestamp = now\<rparr>]\<rparr>,
         Inr (SessionRecorded (py ''Study session recorded '' @ check_mark)
                (session_tip (duration session) g) session))"
    by (simp add: record_study_session_def Let_def)
  have four: "length memory_tips = 4"
    by (simp add: memory_tips_def)
  show ?thesis
    using fails unchanged ok four session_tip_long [of "duration session" g]
      session_tip_short [of "duration session" g]
    by blast
qed

theorem record_study_session_spec_witness:
  "fst (record_study_session busy_store (sample_session (py ''Physics'') 4) (py ''t'') 7) = busy_store \<and>
   fst (record_study_session busy_store (sample_session (py ''Physics'') 481) (py ''t'') 7) = busy_store \<and>
   record_study_session initial_store (sample_session (py ''Physics'') 480) (py ''t'') 7 =
     (\<lparr>reminders = [], moods = [], tasks = [],
       study_sessions = [\<lparr>session_subject = py ''Physics'', duration = 480, goals = [py ''revise''],
                           completed_goals = [], session_timestamp = py ''t''\<rparr>]\<rparr>,
      Inr (SessionRecorded (py ''Study session recorded '' @ check_mark)
             (py ''Use the Pomodoro Technique (25 min study, 5 min break)'')
             (sample_session (py ''Physics'') 480))) \<and>
   session_tip 5 7 \<in> set memory_tips"
proof -
  have subj: "session_subject (sample_session (py ''Physics'') d) \<in> set SUBJECTS"
    and dur: "duration (sample_session (py ''Physics'') d) = d" for d
    by (simp_all add: sample_session_def SUBJECTS_def)
  have low: "\<exists>e. snd (record_study_session busy_store (sample_session (py ''Physics'') 4) (py ''t'') 7) = Inl e"
    using record_study_session_spec [of busy_store "sample_session (py ''Physics'') 4" "py ''t''" 7]
    by (simp add: dur)
  have high: "\<exists>e. snd (record_study_session busy_store (sample_session (py ''Physics'') 481) (py ''t'') 7) = Inl e"
    using record_study_session_spec [of busy_store "sample_session (py ''Physics'') 481" "py ''t''" 7]
    by (simp add: dur)
  have a: "fst (record_study_session busy_store (sample_session (py ''Physics'') 4) (py ''t'') 7) = busy_store"
    using low record_study_session_spec [of busy_store "sample_session (py ''Physics'') 4" "py ''t''" 7]
    by blast
  have b: "fst (record_study_session busy_store (sample_session (py ''Physics'') 481) (py ''t'') 7) = busy_store"
    using high record_study_session_spec [of busy_store "sample_session (py ''Physics'') 481" "py ''t''" 7]
    by blast
  have c: "record_study_session initial_store (sample_session (py ''Physics'') 480) (py ''t'') 7 =
     (\<lparr>reminders = [], moods = [], tasks = [],
       study_sessions = [\<lparr>session_subject = py ''Physics'', duration = 480, goals = [py ''revise''],
                           completed_goals = [], session_timestamp = py ''t''\<rparr>]\<rparr>,
      Inr (SessionRecorded (py ''Study session recorded '' @ check_mark)
             (py ''Use the Pomodoro Technique (25 min study, 5 min break)'')
             (sample_session (py ''Physics'') 480)))"
    using record_study_session_spec [of initial_store "sample_session (py ''Physics'') 480" "py ''t''" 7]
      subj [of 480]
    by (simp add: dur) (simp add: sample_session_def initial_store_def)
  have d: "session_tip 5 7 \<in> set memory_tips"
    using record_study_session_spec [of initial_store "sample_session (py ''Physics'') 5" "py ''t''" 7]
      subj [of 5]
    by (simp add: dur)
  show ?thesis
    using a b c d by blast
qed

section \<open>Failure leaves the stores alone\<close>

lemma add_note_outcome:
  "(\<exists>e. add_note U s note_data now = (s, Inl e) \<and> status_code e = 400) \<or>
   add_note U s note_data now =
     (s\<lparr>reminders := reminders s @
         [\<lparr>note_text = note_text note_data, category = category note_data,
           priority = priority note_data,
           note_keywords = extract_keywords U (note_text note_data), timestamp = now\<rparr>]\<rparr>,
      Inr (NoteAdded (py ''Note added '' @ check_mark) (extract_keywords U (note_text note_data))
             (note_text note_data) (category note_data) (priority note_data)))"
  by (simp add: add_note_def Let_def)

lemma mood_check_outcome:
  "(\<exists>e. mood_check U s mood_data p sj now = (s, Inl e) \<and> status_code e = 400) \<or>
   mood_check U s mood_data p sj now =
     (s\<lparr>moods := moods s @
         [\<lparr>mood_text = mood_text mood_data,
           mood = fst (classify_mood U p sj (mood_text mood_data)),
           tip = snd (classify_mood U p sj (mood_text mood_data)), mood_timestamp = now\<rparr>]\<rparr>,
      Inr (MoodChecked (fst (classify_mood U p sj (mood_text mood_data)))
             (snd (classify_mood U p sj (mood_text mood_data))) (mood_text mood_data)))"
  by (simp add: mood_check_def split: prod.split)

lemma add_task_outcome:
  "(\<exists>e. add_task s task now = (s, Inl e) \<and> status_code e = 400) \<or>
   add_task s task now =
     (s\<lparr>tasks := tasks s @
         [\<lparr>title = title task, description = description task, due_date = due_date task,
           subject = subject task, task_priority = task_priority task, status = status task,
           task_id = str_nat (length (tasks s) + 1), task_timestamp = now\<rparr>]\<rparr>,
      Inr (TaskAdded
             \<lparr>title = title task, description = description task, due_date = due_date task,
              subject = subject task, task_priority = task_priority task, status = status task,
              task_id = str_nat (length (tasks s) + 1), task_timestamp = now\<rparr>))"
  by (simp add: add_task_def Let_def)

lemma record_study_session_outcome:
  "(\<exists>e. record_study_session s session now g = (s, Inl e) \<and> status_code e = 400) \<or>
   record_study_session s session now g =
     (s\<lparr>study_sessions := study_sessions s @
         [\<lparr>session_subject = session_subject session, duration = duration session,
           goals = goals session, completed_goals = completed_goals session,
           session_timestamp = now\<rparr>]\<rparr>,
      Inr (SessionRecorded (py ''Study session recorded '' @ check_mark)
             (session_tip (duration session) g) session))"
  by (simp add: record_study_session_def Let_def)

lemma get_study_tips_outcome:
  "(\<exists>e. get_study_tips s cat = (s, Inl e) \<and> status_code e = 400) \<or>
   (\<exists>tips. map_of STUDY_TIPS cat = Some tips \<and>
      get_study_tips s cat = (s, Inr (StudyTips cat tips)))"
  by (cases "map_of STUDY_TIPS cat") (simp_all add: get_study_tips_def)

lemma update_task_status_outcome:
  "(\<exists>e. update_task_status s tid task_update = (s, Inl e) \<and>
        (status_code e = 400 \<or> status_code e = 404)) \<or>
   (\<exists>i<length (tasks s). task_id (tasks s ! i) = tid \<and>
      update_task_status s tid task_update =
        (s\<lparr>tasks := (tasks s)[i := (tasks s ! i)\<lparr>status := new_status task_update\<rparr>]\<rparr>,
         Inr (TaskUpdated (py ''Task status updated'')
                ((tasks s ! i)\<lparr>status := new_status task_update\<rparr>))))"
proof (cases "new_status task_update \<in> set TASK_STATUSES")
  case False
  then show ?thesis
    by (simp add: update_task_status_def)
next
  case valid: True
  show ?thesis
  proof (cases "tid \<in> task_id ` set (tasks s)")
    case False
    then show ?thesis
      using valid by (simp add: update_task_status_def update_first_missing)
  next
    case True
    then obtain i where i: "i < length (tasks s)" "task_id (tasks s ! i) = tid"
        "update_first (tasks s) tid (new_status task_update) =
           Some ((tasks s)[i := (tasks s ! i)\<lparr>status := new_status task_update\<rparr>],
                 (tasks s ! i)\<lparr>status := new_status task_update\<rparr>)"
      using update_first_found [of tid "tasks s" "new_status task_update"] by blast
    have "update_task_status s tid task_update =
        (s\<lparr>tasks := (tasks s)[i := (tasks s ! i)\<lparr>status := new_status task_update\<rparr>]\<rparr>,
         Inr (TaskUpdated (py ''Task status updated'')
                ((tasks s ! i)\<lparr>status := new_status task_update\<rparr>)))"
      using valid i(3) by (simp add: update_task_status_def)
    then show ?thesis
      using i(1,2) by blast
  qed
qed

text \<open>
  C4. Each of \<open>add_note\<close>, \<open>mood_check\<close>, \<open>add_task\<close>, \<open>record_study_session\<close>,
  \<open>get_study_tips\<close> and \<open>update_task_status\<close> ends in one of two ways. Either it fails,
  with status 400 (the ValidationError) or, for an unknown task id, 404 (the NotFoundError),
  and the four stores are as they were before the call. Or it returns its body and the
  stores hold its mutation: the one record appended by the four add handlers, the one status
  replaced by \<open>update_task_status\<close>; \<open>get_study_tips\<close> has no mutation to make.
\<close>

theorem handlers_atomic:
  "((\<exists>e. add_note U s note_data now = (s, Inl e) \<and> status_code e = 400) \<or>
    add_note U s note_data now =
      (s\<lparr>reminders := reminders s @
          [\<lparr>note_text = note_text note_data, category = category note_data,
            priority = priority note_data,
            note_keywords = extract_keywords U (note_text note_data), timestamp = now\<rparr>]\<rparr>,
       Inr (NoteAdded (py ''Note added '' @ check_mark) (extract_keywords U (note_text note_data))
              (note_text note_data) (category note_data) (priority note_data)))) \<and>
   ((\<exists>e. mood_check U s mood_data p sj now = (s, Inl e) \<and> status_code e = 400) \<or>
    mood_check U s mood_data p sj now =
      (s\<lparr>moods := moods s @
          [\<lparr>mood_text = mood_text mood_data,
            mood = fst (classify_mood U p sj (mood_text mood_data)),
            tip = snd (classify_mood U p sj (mood_text mood_data)), mood_timestamp = now\<rparr>]\<rparr>,
       Inr (MoodChecked (fst (classify_mood U p sj (mood_text mood_data)))
              (snd (classify_mood U p sj (mood_text mood_data))) (mood_text mood_data)))) \<and>
   ((\<exists>e. add_task s task now = (s, Inl e) \<and> status_code e = 400) \<or>
    add_task s task now =
      (s\<lparr>tasks := tasks s @
          [\<lparr>title = title task, description = description task, due_date = due_date task,
            subject = subject task, task_priority = task_priority task, status = status task,
            task_id = str_nat (length (tasks s) + 1), task_timestamp = now\<rparr>]\<rparr>,
       Inr (TaskAdded
              \<lparr>title = title task, description = description task, due_date = due_date task,
               subject = subject task, task_priority = task_priority task,
               status = status task, task_id = str_nat (length (tasks s) + 1),
               task_timestamp = now\<rparr>))) \<and>
   ((\<exists>e. record_study_session s session now g = (s, Inl e) \<and> status_code e = 400) \<or>
    record_study_session s session now g =
      (s\<lparr>study_sessions := study_sessions s @
          [\<lparr>session_subject = session_subject session, duration = duration session,
            goals = goals session, completed_goals = completed_goals session,
            session_timestamp = now\<rparr>]\<rparr>,
       Inr (SessionRecorded (py ''Study session recorded '' @ check_mark)
              (session_tip (duration session) g) session))) \<and>
   ((\<exists>e. get_study_tips s cat = (s, Inl e) \<and> status_code e = 400) \<or>
    (\<exists>tips. map_of STUDY_TIPS cat = Some tips \<and>
       get_study_tips s cat = (s, Inr (StudyTips cat tips)))) \<and>
   ((\<exists>e. update_task_status s tid task_update = (s, Inl e) \<and>
         (status_code e = 400 \<or> status_code e = 404)) \<or>
    (\<exists>i<length (tasks s). task_id (tasks s ! i) = tid \<and>
       update_task_status s tid task_update =
         (s\<lparr>tasks := (tasks s)[i := (tasks s ! i)\<lparr>status := new_status task_update\<rparr>]\<rparr>,
          Inr (TaskUpdated (py ''Task status updated'')
                 ((tasks s ! i)\<lparr>status := new_status task_update\<rparr>)))))"
  by (intro conjI add_note_outcome mood_check_outcome add_task_outcome
      record_study_session_outcome get_study_tips_outcome update_task_status_outcome)

theorem handlers_atomic_witness:
  "fst (add_note latin1_db busy_store (sample_note [0x20, 0xA0, 0x3000]) (py ''t'')) = busy_store \<and>
   fst (mood_check latin1_db busy_store \<lparr>mood_text = py ''''\<rparr> 0 0 (py ''t'')) = busy_store \<and>
   fst (add_task busy_store (sample_task (py ''Sheet'') (py ''Alchemy'')) (py ''t'')) = busy_store \<and>
   fst (record_study_session busy_store (sample_session (py ''Physics'') 3) (py ''t'') 0) = busy_store \<and>
   fst (get_study_tips busy_store (py ''sleep'')) = busy_store \<and>
   fst (update_task_status task_store (py ''999'') \<lparr>new_status = py ''completed''\<rparr>) = task_store \<and>
   fst (update_task_status task_store (py ''1'') \<lparr>new_status = py ''done''\<rparr>) = task_store \<and>
   map task_id (tasks (fst (add_task task_store (sample_task (py ''Sheet'') (py ''Physics'')) (py ''t'')))) =
     [py ''1'', py ''2'', py ''1'', py ''4'']"
proof -
  have 1: "\<exists>e. snd (add_note latin1_db busy_store (sample_note [0x20, 0xA0, 0x3000]) (py ''t'')) = Inl e"
    by (simp add: add_note_def sample_note_def strip_def isspace_def whitespace_def py_def)
  have 2: "\<exists>e. snd (mood_check latin1_db busy_store \<lparr>mood_text = py ''''\<rparr> 0 0 (py ''t'')) = Inl e"
    by (simp add: mood_check_def strip_def)
  have 3: "\<exists>e. snd (add_task busy_store (sample_task (py ''Sheet'') (py ''Alchemy'')) (py ''t'')) = Inl e"
    by (simp add: add_task_def sample_task_def SUBJECTS_def)
  have 4: "\<exists>e. snd (record_study_session busy_store (sample_session (py ''Physics'') 3) (py ''t'') 0) = Inl e"
    by (simp add: record_study_session_def sample_session_def SUBJECTS_def)
  have 5: "\<exists>e. snd (get_study_tips busy_store (py ''sleep'')) = Inl e"
    by (simp add: get_study_tips_def STUDY_TIPS_def)
  have 6: "\<exists>e. snd (update_task_status task_store (py ''999'') \<lparr>new_status = py ''completed''\<rparr>) = Inl e"
    by (simp add: update_task_status_def TASK_STATUSES_def task_store_def stored_task_def)
  have 7: "\<exists>e. snd (update_task_status task_store (py ''1'') \<lparr>new_status = py ''done''\<rparr>) = Inl e"
    by (simp add: update_task_status_def TASK_STATUSES_def)
  have 8: "\<exists>r. snd (add_task task_store (sample_task (py ''Sheet'') (py ''Physics'')) (py ''t'')) = Inr r"
    by (simp add: add_task_def sample_task_def SUBJECTS_def Let_def)
  have four: "str_nat (Suc (length (tasks task_store))) = py ''4''"
    by code_simp
  have ids: "map task_id (tasks task_store) = [py ''1'', py ''2'', py ''1'']"
    by (simp add: task_store_def stored_task_def)
  note a = handlers_atomic [THEN conjunct1, of latin1_db busy_store "sample_note [0x20, 0xA0, 0x3000]" "py ''t''"]
  note b = handlers_atomic [THEN conjunct2, THEN conjunct1,
      of latin1_db busy_store "\<lparr>mood_text = py ''''\<rparr>" 0 0 "py ''t''"]
  note c = handlers_atomic [THEN conjunct2, THEN conjunct2, THEN conjunct1,
      of busy_store "sample_task (py ''Sheet'') (py ''Alchemy'')" "py ''t''"]
  note d = handlers_atomic [THEN conjunct2, THEN conjunct2, THEN conjunct2, THEN conjunct1,
      of busy_store "sample_session (py ''Physics'') 3" "py ''t''" 0]
  note e = handlers_atomic [THEN conjunct2, THEN conjunct2, THEN conjunct2, THEN conjunct2,
      THEN conjunct1, of busy_store "py ''sleep''"]
  note f = handlers_atomic [THEN conjunct2, THEN conjunct2, THEN conjunct2, THEN conjunct2,
      THEN conjunct2, of task_store "py ''999''" "\<lparr>new_status = py ''completed''\<rparr>"]
  note g = handlers_atomic [THEN conjunct2, THEN conjunct2, THEN conjunct2, THEN conjunct2,
      THEN conjunct2, of task_store "py ''1''" "\<lparr>new_status = py ''done''\<rparr>"]
  note h = handlers_atomic [THEN conjunct2, THEN conjunct2, THEN conjunct1,
      of task_store "sample_task (py ''Sheet'') (py ''Physics'')" "py ''t''"]
  have "fst (add_note latin1_db busy_store (sample_note [0x20, 0xA0, 0x3000]) (py ''t'')) = busy_store"
    using 1 a by auto
  moreover have "fst (mood_check latin1_db busy_store \<lparr>mood_text = py ''''\<rparr> 0 0 (py ''t'')) = busy_store"
    using 2 b by auto
  moreover have "fst (add_task busy_store (sample_task (py ''Sheet'') (py ''Alchemy'')) (py ''t'')) = busy_store"
    using 3 c by auto
  moreover have "fst (record_study_session busy_store (sample_session (py ''Physics'') 3) (py ''t'') 0) = busy_store"
    using 4 d by auto
  moreover have "fst (get_study_tips busy_store (py ''sleep'')) = busy_store"
    using 5 e by auto
  moreover have "fst (update_task_status task_store (py ''999'') \<lparr>new_status = py ''completed''\<rparr>) = task_store"
    using 6 f by auto
  moreover have "fst (update_task_status task_store (py ''1'') \<lparr>new_status = py ''done''\<rparr>) = task_store"
    using 7 g by auto
  moreover have "map task_id (tasks (fst (add_task task_store (sample_task (py ''Sheet'') (py ''Physics'')) (py ''t'')))) =
      [py ''1'', py ''2'', py ''1'', py ''4'']"
    using 8 h by (auto simp: four ids)
  ultimately show ?thesis
    by blast
qed

section \<open>The status of a stored task\<close>

text \<open>
  C8. The claim fails on the code: \<open>add_task\<close> stores the status of the request as it
  comes, and \<open>Task\<close> accepts any string for it. Only \<open>update_task_status\<close> checks the
  status against the three values that the comment on the field lists. Here one call of
  \<open>add_task\<close> on the empty stores, with a valid subject and the status "done", leaves a
  task with the status "done".
\<close>

theorem add_task_stores_any_status:
  "map status (tasks (run latin1_db initial_store
      [AddTask ((sample_task (py ''Sheet 1'') (py ''Physics''))\<lparr>status := py ''done''\<rparr>)
         (py ''2024-05-03T08:00:00'')])) = [py ''done''] \<and>
   py ''done'' \<notin> set TASK_STATUSES"
  by (simp add: add_task_def sample_task_def SUBJECTS_def TASK_STATUSES_def initial_store_def
      Let_def)

section \<open>Mood labels and the mood tally\<close>

lemma label_words:
  "one_mood_word happy_label" "one_mood_word sad_label" "one_mood_word neutral_label"
  by (simp_all add: one_mood_word_def mood_words_def happy_label_def sad_label_def
      neutral_label_def py_def)

lemma classify_mood_label:
  "fst (classify_mood U p sj msg) \<in> {happy_label, sad_label, neutral_label}"
  by (simp add: classify_mood_def)

lemma labelled_step: "labelled s \<Longrightarrow> labelled (fst (handle U s r))"
proof (cases r)
  case (MoodCheck mood_data p sj now)
  assume "labelled s"
  then show ?thesis
    using MoodCheck classify_mood_label [of U p sj "mood_text mood_data"]
    by (auto simp: labelled_def mood_check_def split: prod.splits)
next
  case (UpdateTaskStatus tid task_update)
  assume "labelled s"
  then show ?thesis
    using UpdateTaskStatus
    by (auto simp: labelled_def update_task_status_def split: option.splits)
qed (auto simp: labelled_def add_note_def add_task_def record_study_session_def
      get_study_stats_def get_study_tips_def all_data_def Let_def split: option.splits)

lemma labelled_run: "labelled s \<Longrightarrow> labelled (run U s reqs)"
  by (induction reqs arbitrary: s) (simp_all add: labelled_step)

lemma labelled_initial: "labelled initial_store"
  by (simp add: labelled_def initial_store_def)

lemma tally_total:
  "\<forall>m \<in> set ms. one_mood_word (mood m) \<Longrightarrow>
     length (filter (\<lambda>m. str_in (py ''Happy'') (mood m)) ms) +
     length (filter (\<lambda>m. str_in (py ''Neutral'') (mood m)) ms) +
     length (filter (\<lambda>m. str_in (py ''Sad'') (mood m)) ms) = length ms"
  by (induction ms) (auto simp: one_mood_word_def mood_words_def split: if_splits)

text \<open>
  C10. In every store the requests can lead to from the empty stores, the label of each
  stored mood record contains exactly one of the words "Happy", "Sad", "Neutral", and the
  positive, neutral and negative counts of \<open>get_study_stats\<close> add up to the number of
  mood records.
\<close>

theorem mood_tally_total:
  "(\<forall>m \<in> set (moods (run U initial_store reqs)). one_mood_word (mood m)) \<and>
   (\<exists>st. get_study_stats (run U initial_store reqs) =
            (run U initial_store reqs, Inr (StudyStats st)) \<and>
      positive (mood_counts st) + neutral (mood_counts st) + negative (mood_counts st) =
        length (moods (run U initial_store reqs)))"
proof -
  let ?s = "run U initial_store reqs"
  have "labelled ?s"
    using labelled_initial by (rule labelled_run)
  then have one: "\<forall>m \<in> set (moods ?s). one_mood_word (mood m)"
    using label_words by (auto simp: labelled_def)
  then show ?thesis
    using tally_total [of "moods ?s"] by (simp add: get_study_stats_def Let_def)
qed

theorem mood_tally_total_witness:
  "map mood (moods (run latin1_db initial_store
     [MoodCheck \<lparr>mood_text = py ''I love this course''\<rparr> (1 / 2) (3 / 4) (py ''t1''),
      AddNote (sample_note (py ''Integrate by parts'')) (py ''t2''),
      MoodCheck \<lparr>mood_text = py ''So tired of exams''\<rparr> (- 4 / 5) 1 (py ''t3''),
      MoodCheck \<lparr>mood_text = py ''fine''\<rparr> 0 0 (py ''t4'')])) =
     [happy_label, sad_label, neutral_label] \<and>
   one_mood_word happy_label \<and> one_mood_word sad_label \<and> one_mood_word neutral_label \<and>
   (\<exists>st. snd (get_study_stats (run latin1_db initial_store
     [MoodCheck \<lparr>mood_text = py ''I love this course''\<rparr> (1 / 2) (3 / 4) (py ''t1''),
      AddNote (sample_note (py ''Integrate by parts'')) (py ''t2''),
      MoodCheck \<lparr>mood_text = py ''So tired of exams''\<rparr> (- 4 / 5) 1 (py ''t3''),
      MoodCheck \<lparr>mood_text = py ''fine''\<rparr> 0 0 (py ''t4'')])) = Inr (StudyStats st) \<and>
      positive (mood_counts st) + neutral (mood_counts st) + negative (mood_counts st) = 3)"
proof -
  let ?reqs = "[MoodCheck \<lparr>mood_text = py ''I love this course''\<rparr> (1 / 2) (3 / 4) (py ''t1''),
      AddNote (sample_note (py ''Integrate by parts'')) (py ''t2''),
      MoodCheck \<lparr>mood_text = py ''So tired of exams''\<rparr> (- 4 / 5) 1 (py ''t3''),
      MoodCheck \<lparr>mood_text = py ''fine''\<rparr> 0 0 (py ''t4'')]"
  let ?s = "run latin1_db initial_store ?reqs"
  have blank: "strip (py ''I love this course'') \<noteq> []" "strip (py ''So tired of exams'') \<noteq> []"
      "strip (py ''fine'') \<noteq> []"
    by (simp_all add: strip_def isspace_def whitespace_def py_def)
  have ms: "map mood (moods ?s) = [happy_label, sad_label, neutral_label]"
    by (simp add: mood_check_def add_note_def classify_mood_def initial_store_def blank
        lit_0_2_def sample_note_def NOTE_CATEGORIES_def Let_def)
  note main = mood_tally_total [of latin1_db ?reqs]
  have "\<forall>l \<in> set (map mood (moods ?s)). one_mood_word l"
    using main by simp
  then have labels: "one_mood_word happy_label \<and> one_mood_word sad_label \<and>
      one_mood_word neutral_label"
    unfolding ms by simp
  have "length (moods ?s) = 3"
    using ms [THEN arg_cong, of length] by simp
  then have "\<exists>st. snd (get_study_stats ?s) = Inr (StudyStats st) \<and>
      positive (mood_counts st) + neutral (mood_counts st) + negative (mood_counts st) = 3"
    using main by auto
  then show ?thesis
    using ms labels by blast
qed

section \<open>The dump after a sequence of add operations\<close>

lemma the_notes_append: "the_notes (xs @ ys) = the_notes xs @ the_notes ys"
  by (induction xs rule: the_notes.induct) simp_all

lemma the_moods_append: "the_moods (xs @ ys) = the_moods xs @ the_moods ys"
  by (induction xs rule: the_moods.induct) simp_all

lemma the_tasks_append: "the_tasks (xs @ ys) = the_tasks xs @ the_tasks ys"
  by (induction xs rule: the_tasks.induct) simp_all

lemma the_sessions_append: "the_sessions (xs @ ys) = the_sessions xs @ the_sessions ys"
  by (induction xs rule: the_sessions.induct) simp_all

lemma stored_partition:
  "length (the_notes xs) + length (the_moods xs) + length (the_tasks xs) +
     length (the_sessions xs) = length xs"
proof (induction xs)
  case Nil
  show ?case by simp
next
  case (Cons x xs)
  then show ?case by (cases x) simp_all
qed

lemma expected_one: "is_add r \<Longrightarrow> length (expected U n r) = 1"
  by (cases r) simp_all

lemma add_step:
  assumes "is_add r" and "succeeds U s r"
  shows "fst (handle U s r) =
    \<lparr>reminders = reminders s @ the_notes (expected U (length (tasks s)) r),
     moods = moods s @ the_moods (expected U (length (tasks s)) r),
     tasks = tasks s @ the_tasks (expected U (length (tasks s)) r),
     study_sessions = study_sessions s @ the_sessions (expected U (length (tasks s)) r)\<rparr>"
proof (cases r)
  case (AddNote note_data now)
  then show ?thesis
    using assms(2)
    by (auto simp: succeeds_def add_note_def Let_def split: if_splits)
next
  case (MoodCheck mood_data p sj now)
  then show ?thesis
    using assms(2)
    by (auto simp: succeeds_def mood_check_def split: if_splits prod.splits)
next
  case (AddTask task now)
  then show ?thesis
    using assms(2)
    by (auto simp: succeeds_def add_task_def Let_def split: if_splits)
next
  case (RecordStudySession session now g)
  then show ?thesis
    using assms(2)
    by (auto simp: succeeds_def record_study_session_def Let_def split: if_splits)
qed (use assms(1) in simp_all)

lemma all_succeed_adds: "all_succeed U s reqs \<Longrightarrow> length (records U n reqs) = length reqs"
  by (induction reqs arbitrary: s n) (auto simp: expected_one)

lemma add_run:
  assumes "all_succeed U s reqs"
  shows "run U s reqs =
    \<lparr>reminders = reminders s @ the_notes (records U (length (tasks s)) reqs),
     moods = moods s @ the_moods (records U (length (tasks s)) reqs),
     tasks = tasks s @ the_tasks (records U (length (tasks s)) reqs),
     study_sessions = study_sessions s @ the_sessions (records U (length (tasks s)) reqs)\<rparr>"
  using assms
proof (induction reqs arbitrary: s)
  case Nil
  show ?case by simp
next
  case (Cons r rs)
  let ?s' = "fst (handle U s r)"
  let ?e = "expected U (length (tasks s)) r"
  have step: "?s' =
    \<lparr>reminders = reminders s @ the_notes ?e, moods = moods s @ the_moods ?e,
     tasks = tasks s @ the_tasks ?e, study_sessions = study_sessions s @ the_sessions ?e\<rparr>"
    using Cons.prems by (intro add_step) simp_all
  have fields: "reminders ?s' = reminders s @ the_notes ?e" "moods ?s' = moods s @ the_moods ?e"
      "tasks ?s' = tasks s @ the_tasks ?e"
      "study_sessions ?s' = study_sessions s @ the_sessions ?e"
    by (subst step, simp)+
  have "all_succeed U ?s' rs"
    using Cons.prems by simp
  then have "run U ?s' rs =
    \<lparr>reminders = reminders ?s' @ the_notes (records U (length (tasks ?s')) rs),
     moods = moods ?s' @ the_moods (records U (length (tasks ?s')) rs),
     tasks = tasks ?s' @ the_tasks (records U (length (tasks ?s')) rs),
     study_sessions = study_sessions ?s' @ the_sessions (records U (length (tasks ?s')) rs)\<rparr>"
    by (rule Cons.IH)
  then show ?case
    by (simp add: fields the_notes_append the_moods_append the_tasks_append
        the_sessions_append)
qed

text \<open>
  C9. Let every request of a sequence be one of the four add operations (\<open>add_note\<close>,
  \<open>mood_check\<close>, \<open>add_task\<close>, \<open>record_study_session\<close>, in any mix) and let each
  succeed. Then \<open>all_data\<close> afterwards returns the stores unchanged by itself, and its
  body lists, store by store, the records that were there before followed by the records of
  the requests, one per request, each in its own store and in the order of the requests,
  together with \<open>SUBJECTS\<close> and \<open>NOTE_CATEGORIES\<close>. So N requests add exactly N records
  across the four stores; from the empty stores the body holds N records in total.
\<close>

theorem all_data_round_trip:
  assumes "all_succeed U s reqs"
  shows "all_data (run U s reqs) =
      (run U s reqs,
       Inr (AllData (reminders s @ the_notes (records U (length (tasks s)) reqs))
              (moods s @ the_moods (records U (length (tasks s)) reqs))
              (tasks s @ the_tasks (records U (length (tasks s)) reqs))
              (study_sessions s @ the_sessions (records U (length (tasks s)) reqs))
              SUBJECTS NOTE_CATEGORIES)) \<and>
    length (records U (length (tasks s)) reqs) = length reqs \<and>
    length (the_notes (records U (length (tasks s)) reqs)) +
    length (the_moods (records U (length (tasks s)) reqs)) +
    length (the_tasks (records U (length (tasks s)) reqs)) +
    length (the_sessions (records U (length (tasks s)) reqs)) = length reqs \<and>
    length (reminders (run U s reqs)) + length (moods (run U s reqs)) +
    length (tasks (run U s reqs)) + length (study_sessions (run U s reqs)) =
      length (reminders s) + length (moods s) + length (tasks s) +
      length (study_sessions s) + length reqs"
proof -
  let ?R = "records U (length (tasks s)) reqs"
  have run_eq: "run U s reqs =
    \<lparr>reminders = reminders s @ the_notes ?R, moods = moods s @ the_moods ?R,
     tasks = tasks s @ the_tasks ?R, study_sessions = study_sessions s @ the_sessions ?R\<rparr>"
    using assms by (rule add_run)
  have fields: "reminders (run U s reqs) = reminders s @ the_notes ?R"
      "moods (run U s reqs) = moods s @ the_moods ?R"
      "tasks (run U s reqs) = tasks s @ the_tasks ?R"
      "study_sessions (run U s reqs) = study_sessions s @ the_sessions ?R"
    by (subst run_eq, simp)+
  have len: "length ?R = length reqs"
    using assms by (rule all_succeed_adds)
  have part: "length (the_notes ?R) + length (the_moods ?R) + length (the_tasks ?R) +
      length (the_sessions ?R) = length reqs"
    using stored_partition [of ?R] len by simp
  have dump: "all_data (run U s reqs) =
      (run U s reqs,
       Inr (AllData (reminders s @ the_notes ?R) (moods s @ the_moods ?R)
              (tasks s @ the_tasks ?R) (study_sessions s @ the_sessions ?R)
              SUBJECTS NOTE_CATEGORIES))"
    by (simp add: all_data_def fields)
  have total: "length (reminders (run U s reqs)) + length (moods (run U s reqs)) +
      length (tasks (run U s reqs)) + length (study_sessions (run U s reqs)) =
      length (reminders s) + length (moods s) + length (tasks s) +
      length (study_sessions s) + length reqs"
    using part by (simp add: fields)
  show ?thesis
    using dump len part total by blast
qed


theorem all_data_round_trip_witness:
  "\<exists>ns ms ts ss.
     all_data (run latin1_db initial_store
       [AddNote (sample_note (py ''Integrate by parts'')) (py ''t1''),
        AddTask (sample_task (py ''Sheet 1'') (py ''Physics'')) (py ''t2''),
        MoodCheck \<lparr>mood_text = py ''fine''\<rparr> 0 0 (py ''t3''),
        RecordStudySession (sample_session (py ''Physics'') 45) (py ''t4'') 0,
        AddTask (sample_task (py ''Sheet 2'') (py ''Biology'')) (py ''t5'')]) =
       (run latin1_db initial_store
         [AddNote (sample_note (py ''Integrate by parts'')) (py ''t1''),
          AddTask (sample_task (py ''Sheet 1'') (py ''Physics'')) (py ''t2''),
          MoodCheck \<lparr>mood_text = py ''fine''\<rparr> 0 0 (py ''t3''),
          RecordStudySession (sample_session (py ''Physics'') 45) (py ''t4'') 0,
          AddTask (sample_task (py ''Sheet 2'') (py ''Biology'')) (py ''t5'')],
        Inr (AllData ns ms ts ss SUBJECTS NOTE_CATEGORIES)) \<and>
     length ns + length ms + length ts + length ss = 5 \<and>
     map timestamp ns = [py ''t1''] \<and> map mood_timestamp ms = [py ''t3''] \<and>
     map task_timestamp ts = [py ''t2'', py ''t5''] \<and> map task_id ts = [py ''1'', py ''2''] \<and>
     map session_timestamp ss = [py ''t4'']"
proof -
  let ?reqs = "[AddNote (sample_note (py ''Integrate by parts'')) (py ''t1''),
        AddTask (sample_task (py ''Sheet 1'') (py ''Physics'')) (py ''t2''),
        MoodCheck \<lparr>mood_text = py ''fine''\<rparr> 0 0 (py ''t3''),
        RecordStudySession (sample_session (py ''Physics'') 45) (py ''t4'') 0,
        AddTask (sample_task (py ''Sheet 2'') (py ''Biology'')) (py ''t5'')]"
  let ?R = "records latin1_db (length (tasks initial_store)) ?reqs"
  have blank: "strip (py ''Integrate by parts'') \<noteq> []" "strip (py ''fine'') \<noteq> []"
    by (simp_all add: strip_def isspace_def whitespace_def py_def)
  have ok: "all_succeed latin1_db initial_store ?reqs"
    by (simp add: succeeds_def add_note_def add_task_def mood_check_def
        record_study_session_def sample_note_def sample_task_def sample_session_def
        NOTE_CATEGORIES_def SUBJECTS_def blank Let_def case_prod_beta)
  have strs: "str_nat (Suc 0) = py ''1''" "str_nat (Suc (Suc 0)) = py ''2''"
    by (simp_all add: str_nat.simps digit_char_def py_def)
  have recs: "map timestamp (the_notes ?R) = [py ''t1'']"
      "map mood_timestamp (the_moods ?R) = [py ''t3'']"
      "map task_timestamp (the_tasks ?R) = [py ''t2'', py ''t5'']"
      "map task_id (the_tasks ?R) = [py ''1'', py ''2'']"
      "map session_timestamp (the_sessions ?R) = [py ''t4'']"
    by (simp_all add: initial_store_def strs)
  have empty: "reminders initial_store = []" "moods initial_store = []"
      "tasks initial_store = []" "study_sessions initial_store = []"
    by (simp_all add: initial_store_def)
  note main = all_data_round_trip [OF ok]
  have dump: "all_data (run latin1_db initial_store ?reqs) =
      (run latin1_db initial_store ?reqs,
       Inr (AllData (the_notes ?R) (the_moods ?R) (the_tasks ?R) (the_sessions ?R)
              SUBJECTS NOTE_CATEGORIES))"
    using main [THEN conjunct1] by (simp only: empty append_Nil)
  have five: "length (the_notes ?R) + length (the_moods ?R) + length (the_tasks ?R) +
      length (the_sessions ?R) = 5"
    using main [THEN conjunct2, THEN conjunct2, THEN conjunct1] by (simp only: list.size)
  show ?thesis
    by (intro exI conjI, rule dump, rule five, (rule recs)+)
qed

end
